theory Spec2Isabelle
  imports Main "HOL-Library.Sublist"
begin

section \<open>Paths, errors and file contents\<close>

text \<open>
  A path is kept as the list of its components (Python's \<^verbatim>\<open>Path.parts\<close>):
  \<^verbatim>\<open>exercise_utils/git.py\<close> is \<open>[''exercise_utils'', ''git.py'']\<close>, the
  working directory itself is \<open>[]\<close>, and one path lies at or below another when the
  other is a \<open>prefix\<close> of it.
\<close>

type_synonym path = "string list"

text \<open>
  What git and the file system do with a path is written out for the ordinary paths
  only: relative paths of at most twelve components, each a name of at most 255
  characters made of letters, digits, dot, underscore and hyphen, other than
  \<^verbatim>\<open>.\<close> and \<^verbatim>\<open>..\<close>, that do not start in git's own directory
  \<^verbatim>\<open>.git\<close> and do not look like a command-line option. (The bounds keep a path
  below the limits of the file system.) For every other path (absolute paths,
  \<^verbatim>\<open>..\<close>, names with blanks or wildcards, option-like arguments, overlong
  names) the outcome is left to the surroundings, see below.
\<close>

definition name_char :: "char \<Rightarrow> bool" where
  "name_char ch \<longleftrightarrow>
     ch \<in> set ''abcdefghijklmnopqrstuvwxyzABCDEFGHIJKLMNOPQRSTUVWXYZ0123456789._-''"

definition plain_component :: "string \<Rightarrow> bool" where
  "plain_component c \<longleftrightarrow>
     c \<noteq> [] \<and> c \<noteq> ''.'' \<and> c \<noteq> ''..'' \<and> length c \<le> 255 \<and> (\<forall>ch \<in> set c. name_char ch)"

fun option_like :: "path \<Rightarrow> bool" where
  "option_like ((ch # cs) # p) = (ch = CHR ''-'')"
| "option_like p = False"

fun in_git_dir :: "path \<Rightarrow> bool" where
  "in_git_dir (c # p) = (c = ''.git'')"
| "in_git_dir [] = False"

definition ordinary :: "path \<Rightarrow> bool" where
  "ordinary p \<longleftrightarrow>
     p \<noteq> [] \<and> length p \<le> 12 \<and> (\<forall>c \<in> set p. plain_component c) \<and>
     \<not> in_git_dir p \<and> \<not> option_like p"

text \<open>
  The exceptions that the code under study can meet. \<open>Raised cls msg\<close> is an exception
  of class \<open>cls\<close> with message \<open>msg\<close> thrown by fetched code; the other constructors
  are raised by Python itself (\<^verbatim>\<open>assert\<close>, \<^verbatim>\<open>open\<close>,
  \<^verbatim>\<open>read\<close>, \<^verbatim>\<open>list.remove\<close>, \<^verbatim>\<open>inspect.signature\<close>, a call with
  bad arguments), by \<^verbatim>\<open>tempfile\<close> or by GitPython.
\<close>

datatype py_error =
    AssertionError
  | OSError
  | FileNotFoundError path
  | IsADirectoryError path
  | NotADirectoryError path
  | UnicodeDecodeError
  | GitCommandError
  | ValueError
  | TypeError
  | Raised string string

type_synonym 'a result = "py_error + 'a"

text \<open>\<^verbatim>\<open>str | bytes\<close>: what \<^verbatim>\<open>file.read()\<close> gives in mode \<^verbatim>\<open>rt\<close> or \<^verbatim>\<open>rb\<close>.\<close>

datatype contents = Bytes string | Text string

section \<open>The disk and the sparse clone\<close>

text \<open>
  The disk is the list of the ephemeral directories (those made by
  \<^verbatim>\<open>tempfile.TemporaryDirectory\<close>) that exist at the moment.
\<close>

type_synonym disk = "string list"

text \<open>
  What the code cannot decide and the machine it runs on does:
  \<^item> \<open>decode\<close>: the text layer of \<^verbatim>\<open>open(..., "rt")\<close>, which decodes the bytes
    of a file in the locale's encoding and translates line ends, or fails
    (\<^verbatim>\<open>UnicodeDecodeError\<close>);
  \<^item> \<open>git_odd\<close>: what \<^verbatim>\<open>git sparse-checkout set --skip-checks\<close> does with an
    argument that is not an ordinary path: the pattern list it leaves, or \<open>None\<close>
    when git refuses the argument;
  \<^item> \<open>exists_odd\<close> and \<open>read_odd\<close>: what \<^verbatim>\<open>os.path.exists\<close> and
    \<^verbatim>\<open>open\<close> with \<^verbatim>\<open>read\<close> give for a path that is not ordinary, which
    may lead out of the working tree or into \<^verbatim>\<open>.git\<close>.
\<close>

record surroundings =
  decode :: "string \<Rightarrow> string option"
  git_odd :: "path \<Rightarrow> path list option"
  exists_odd :: "path \<Rightarrow> bool"
  read_odd :: "path \<Rightarrow> bool \<Rightarrow> contents result"

text \<open>
  GitPython's \<^verbatim>\<open>Repo\<close>: a handle on the clone in \<open>working_dir\<close>, a
  directory made by \<^verbatim>\<open>tempfile\<close> on a Linux file system. The clone is pinned
  to one commit of the remote, which holds regular files only (no symbolic links, no
  submodules): \<open>remote_files\<close> gives their paths and their bytes as checked out;
  \<open>sparse\<close> is the current list of sparse-checkout directories. The clone is made
  with \<^verbatim>\<open>--sparse\<close>, so git (2.37 or later) works in cone mode.
\<close>

record git_repo =
  working_dir :: string
  remote_files :: "(path \<times> string) list"
  sparse :: "path list"
  around :: surroundings

text \<open>
  Cone mode: a file is in the working tree when it lies in the root, directly in a
  directory above one of the listed paths, or at or below a listed path. So a listed
  path that is a file comes with its siblings.
\<close>

definition in_cone :: "path list \<Rightarrow> path \<Rightarrow> bool" where
  "in_cone ps f \<longleftrightarrow>
     butlast f = [] \<or> (\<exists>p \<in> set ps. strict_prefix (butlast f) p \<or> prefix p f)"

text \<open>The files present in the working tree.\<close>

definition materialized :: "git_repo \<Rightarrow> (path \<times> string) list" where
  "materialized r = filter (\<lambda>(f, c). in_cone (sparse r) f) (remote_files r)"

text \<open>
  \<^verbatim>\<open>os.path.exists(Path(working_dir) / p)\<close>: the working directory itself and its
  \<^verbatim>\<open>.git\<close> exist; an ordinary path exists when it is a materialised file or a
  directory on the way to one.
\<close>

definition path_exists :: "git_repo \<Rightarrow> path \<Rightarrow> bool" where
  "path_exists r p \<longleftrightarrow>
     (if p = [] \<or> p = [''.git''] then True
      else if ordinary p then (\<exists>(f, c) \<in> set (materialized r). prefix p f)
      else exists_odd (around r) p)"

text \<open>A path is present in the remote repository as its root, a file or a directory.\<close>

definition remote_has :: "git_repo \<Rightarrow> path \<Rightarrow> bool" where
  "remote_has r p \<longleftrightarrow> p = [] \<or> (\<exists>(f, c) \<in> set (remote_files r). prefix p f)"

text \<open>
  \<^verbatim>\<open>git sparse-checkout set --skip-checks p\<close>, run in the working directory:
  \<^verbatim>\<open>set\<close> writes its arguments as the new list and updates the working tree to
  match. It fails when the working directory is gone. With \<^verbatim>\<open>--skip-checks\<close> an
  ordinary path is taken whether or not the remote has anything there, and so is
  \<^verbatim>\<open>.git\<close>. The remote stays reachable during a session.
\<close>

definition sparse_checkout_set :: "path \<Rightarrow> git_repo \<Rightarrow> disk \<Rightarrow> git_repo result" where
  "sparse_checkout_set p r d =
     (if working_dir r \<notin> set d then Inl GitCommandError
      else if ordinary p \<or> p = [''.git''] then Inr (r\<lparr>sparse := [p]\<rparr>)
      else (case git_odd (around r) p of
              None \<Rightarrow> Inl GitCommandError
            | Some ps \<Rightarrow> Inr (r\<lparr>sparse := ps\<rparr>)))"

text \<open>
  \<^verbatim>\<open>open(Path(working_dir) / p, mode)\<close> followed by \<^verbatim>\<open>read()\<close>. A regular
  file gives all its bytes in binary mode and their decoding in text mode, where
  \<^verbatim>\<open>read\<close> raises if they cannot be decoded. A directory raises
  \<^verbatim>\<open>IsADirectoryError\<close>, a path below a regular file
  \<^verbatim>\<open>NotADirectoryError\<close>, any other missing path \<^verbatim>\<open>FileNotFoundError\<close>.
\<close>

definition open_read :: "git_repo \<Rightarrow> path \<Rightarrow> bool \<Rightarrow> contents result" where
  "open_read r p is_binary =
     (if p = [] \<or> p = [''.git''] then Inl (IsADirectoryError p)
      else if ordinary p then
        (case map_of (materialized r) p of
           Some bytes \<Rightarrow>
             if is_binary then Inr (Bytes bytes)
             else (case decode (around r) bytes of
                     Some t \<Rightarrow> Inr (Text t)
                   | None \<Rightarrow> Inl UnicodeDecodeError)
         | None \<Rightarrow>
             if path_exists r p then Inl (IsADirectoryError p)
             else if \<exists>(f, c) \<in> set (materialized r). strict_prefix f p
             then Inl (NotADirectoryError p)
             else Inl (FileNotFoundError p))
      else read_odd (around r) p is_binary)"

section \<open>ExercisesRepo\<close>

text \<open>The two private attributes \<^verbatim>\<open>__repo\<close> and \<^verbatim>\<open>__temp_dir\<close>.\<close>

record exercises_repo =
  priv_repo :: "git_repo option"
  priv_temp_dir :: "string option"

definition init :: exercises_repo where
  "init = \<lparr>priv_repo = None, priv_temp_dir = None\<rparr>"

text \<open>The property \<^verbatim>\<open>repo\<close> with its assertion.\<close>

definition repo :: "exercises_repo \<Rightarrow> git_repo result" where
  "repo s = (case priv_repo s of None \<Rightarrow> Inl AssertionError | Some r \<Rightarrow> Inr r)"

definition checkout :: "path \<Rightarrow> exercises_repo \<Rightarrow> disk \<Rightarrow> unit result \<times> exercises_repo" where
  "checkout file_path s d =
     (case repo s of
        Inl e \<Rightarrow> (Inl e, s)
      | Inr r \<Rightarrow>
          (case sparse_checkout_set file_path r d of
             Inl e \<Rightarrow> (Inl e, s)
           | Inr r' \<Rightarrow> (Inr (), s\<lparr>priv_repo := Some r'\<rparr>)))"

definition has_file :: "path \<Rightarrow> exercises_repo \<Rightarrow> disk \<Rightarrow> bool result \<times> exercises_repo" where
  "has_file file_path s d =
     (case checkout file_path s d of
        (Inl e, s') \<Rightarrow> (Inl e, s')
      | (Inr u, s') \<Rightarrow>
          (case repo s' of
             Inl e \<Rightarrow> (Inl e, s')
           | Inr r \<Rightarrow> (Inr (path_exists r file_path), s')))"

definition fetch_file_contents ::
    "path \<Rightarrow> bool \<Rightarrow> exercises_repo \<Rightarrow> disk \<Rightarrow> contents result \<times> exercises_repo" where
  "fetch_file_contents file_path is_binary s d =
     (case checkout file_path s d of
        (Inl e, s') \<Rightarrow> (Inl e, s')
      | (Inr u, s') \<Rightarrow>
          (case repo s' of
             Inl e \<Rightarrow> (Inl e, s')
           | Inr r \<Rightarrow> (open_read r file_path is_binary, s')))"

text \<open>
  \<^verbatim>\<open>__enter__\<close>. What the environment decides is passed in: \<open>tmp\<close> is the
  name of the directory \<^verbatim>\<open>tempfile.TemporaryDirectory()\<close> creates (\<open>None\<close> when
  it cannot create one), \<open>config\<close> the exercises source of the root configuration if
  there is one, \<open>default_source\<close> the constant
  \<^verbatim>\<open>GIT_MASTERY_EXERCISES_SOURCE\<close>, and \<open>clone_from\<close> the outcome of
  \<^verbatim>\<open>Repo.clone_from\<close> for a source and a target directory.
\<close>

definition enter ::
    "string option \<Rightarrow> 'src option \<Rightarrow> 'src \<Rightarrow> ('src \<Rightarrow> string \<Rightarrow> git_repo result) \<Rightarrow>
     exercises_repo \<Rightarrow> disk \<Rightarrow> unit result \<times> exercises_repo \<times> disk" where
  "enter tmp config default_source clone_from s d =
     (case tmp of
        None \<Rightarrow> (Inl OSError, s, d)
      | Some name \<Rightarrow>
          (let s1 = s\<lparr>priv_temp_dir := Some name\<rparr>;
               d1 = name # d;
               exercises_source = (case config of Some c \<Rightarrow> c | None \<Rightarrow> default_source)
           in case clone_from exercises_source name of
                Inl e \<Rightarrow> (Inl e, s1, d1)
              | Inr r \<Rightarrow> (Inr (), s1\<lparr>priv_repo := Some (r\<lparr>working_dir := name\<rparr>)\<rparr>, d1)))"

text \<open>
  \<^verbatim>\<open>TemporaryDirectory.cleanup()\<close> removes the directory and everything in it,
  and does nothing when the directory is not there.
\<close>

definition cleanup :: "string \<Rightarrow> disk \<Rightarrow> disk" where
  "cleanup name d = removeAll name d"

text \<open>\<^verbatim>\<open>__exit__\<close>; it returns \<^verbatim>\<open>None\<close>, so a pending exception goes on.\<close>

definition exit_scope :: "exercises_repo \<Rightarrow> disk \<Rightarrow> unit result \<times> exercises_repo \<times> disk" where
  "exit_scope s d =
     (case priv_temp_dir s of
        None \<Rightarrow> (Inr (), s, d)
      | Some name \<Rightarrow> (Inr (), s, cleanup name d))"

text \<open>
  Python's \<^verbatim>\<open>with ExercisesRepo() as r: block\<close>: when \<^verbatim>\<open>__enter__\<close>
  raises, neither the block nor \<^verbatim>\<open>__exit__\<close> runs; once it has returned,
  \<^verbatim>\<open>__exit__\<close> runs whether the block returns or raises.
\<close>

definition with_exercises_repo ::
    "string option \<Rightarrow> 'src option \<Rightarrow> 'src \<Rightarrow> ('src \<Rightarrow> string \<Rightarrow> git_repo result) \<Rightarrow>
     (exercises_repo \<Rightarrow> disk \<Rightarrow> 'a result \<times> exercises_repo \<times> disk) \<Rightarrow>
     disk \<Rightarrow> 'a result \<times> exercises_repo \<times> disk" where
  "with_exercises_repo tmp config default_source clone_from block d =
     (case enter tmp config default_source clone_from init d of
        (Inl e, s1, d1) \<Rightarrow> (Inl e, s1, d1)
      | (Inr u, s1, d1) \<Rightarrow>
          (case block s1 d1 of
             (res, s2, d2) \<Rightarrow>
               (case exit_scope s2 d2 of
                  (Inl e, s3, d3) \<Rightarrow> (Inl e, s3, d3)
                | (Inr u', s3, d3) \<Rightarrow> (res, s3, d3))))"

section \<open>The interpreter's process state\<close>

text \<open>
  What the code touches of the running interpreter: \<^verbatim>\<open>sys.modules\<close> (a
  dictionary, kept as the list of its items; a module object is represented by the name
  of the file it came from), \<^verbatim>\<open>sys.path\<close>, the flag
  \<^verbatim>\<open>sys.dont_write_bytecode\<close>, and the disk.
\<close>

record world =
  sys_modules :: "(string \<times> string) list"
  sys_path :: "string list"
  dont_write_bytecode :: bool
  tmp_dirs :: disk

definition EXERCISE_UTILS_FILES :: "string list" where
  "EXERCISE_UTILS_FILES =
     [''__init__'', ''cli'', ''git'', ''file'', ''gitmastery'', ''github_cli'', ''test'']"

text \<open>The test of both comprehensions: the key names the helper package or a module in it.\<close>

definition is_helper_module :: "string \<Rightarrow> bool" where
  "is_helper_module key \<longleftrightarrow> key = ''exercise_utils'' \<or> prefix ''exercise_utils.'' key"

definition modules_to_remove :: "(string \<times> string) list \<Rightarrow> string list" where
  "modules_to_remove mods = filter is_helper_module (map fst mods)"

text \<open>\<^verbatim>\<open>del sys.modules[mod]\<close>.\<close>

definition del_module :: "string \<Rightarrow> (string \<times> string) list \<Rightarrow> (string \<times> string) list" where
  "del_module key mods = filter (\<lambda>(k, m). k \<noteq> key) mods"

text \<open>The comprehension and the \<^verbatim>\<open>for\<close> loop that deletes what it collected.\<close>

definition purge_helper_modules :: "world \<Rightarrow> world" where
  "purge_helper_modules w =
     w\<lparr>sys_modules := fold del_module (modules_to_remove (sys_modules w)) (sys_modules w)\<rparr>"

definition no_helper_modules :: "world \<Rightarrow> bool" where
  "no_helper_modules w \<longleftrightarrow> (\<forall>key \<in> set (map fst (sys_modules w)). \<not> is_helper_module key)"

section \<open>Namespace\<close>

text \<open>
  What a name of a namespace is bound to: a Python function, with the parameters
  \<^verbatim>\<open>inspect.signature\<close> reports and its behaviour when called with keyword
  arguments, or a value that is not callable. A call may change the process state, and
  returns a value or \<^verbatim>\<open>None\<close>, or raises.
\<close>

datatype param_kind =
  PositionalOnly | PositionalOrKeyword | VarPositional | KeywordOnly | VarKeyword

record param =
  pname :: string
  kind :: param_kind
  has_default :: bool

record 'v py_function =
  parameters :: "param list"
  body :: "(string \<times> 'v) list \<Rightarrow> world \<Rightarrow> 'v option result \<times> world"

datatype 'v py_object = Function "'v py_function" | Plain 'v

type_synonym 'v namespace = "string \<Rightarrow> 'v py_object option"

text \<open>
  \<^verbatim>\<open>exec(py_file, namespace)\<close> cannot be written down for every script, so the
  behaviour of the fetched code is a parameter: given the script's source, the helper
  package on the search path (file name and source) and the process state, it yields
  the bindings the script made or the exception it raised, and the process state it left.
\<close>

type_synonym 'v interp =
  "string \<Rightarrow> (string \<times> string) list \<Rightarrow> world \<Rightarrow> 'v namespace result \<times> world"

text \<open>
  \<^verbatim>\<open>ensure_str\<close> of \<^verbatim>\<open>app.utils.general\<close> turns
  \<^verbatim>\<open>str | bytes\<close> into \<^verbatim>\<open>str\<close>; the reads here are in text mode.
\<close>

definition ensure_str :: "contents \<Rightarrow> string" where
  "ensure_str c = (case c of Text t \<Rightarrow> t | Bytes b \<Rightarrow> b)"

text \<open>
  The loop over \<^verbatim>\<open>EXERCISE_UTILS_FILES\<close>: each helper is read through the
  fetcher and written into the package directory; the first read that fails ends it.
\<close>

fun fetch_helpers ::
    "string list \<Rightarrow> exercises_repo \<Rightarrow> disk \<Rightarrow> (string \<times> string) list result \<times> exercises_repo" where
  "fetch_helpers [] s d = (Inr [], s)"
| "fetch_helpers (filename # rest) s d =
     (case fetch_file_contents [''exercise_utils'', filename @ ''.py''] False s d of
        (Inl e, s1) \<Rightarrow> (Inl e, s1)
      | (Inr exercise_utils_src, s1) \<Rightarrow>
          (case fetch_helpers rest s1 d of
             (Inl e, s2) \<Rightarrow> (Inl e, s2)
           | (Inr written, s2) \<Rightarrow>
               (Inr ((filename @ ''.py'', ensure_str exercise_utils_src) # written), s2)))"

text \<open>
  Lines 150 to 162: the directory goes to the front of the search path, the script runs,
  and the \<^verbatim>\<open>finally\<close> block takes the directory off the path and purges the
  helper modules. \<^verbatim>\<open>sys.path.remove\<close> raises \<^verbatim>\<open>ValueError\<close> when
  the directory is no longer on the path; that exception replaces a pending one and
  the purge after it does not run.
\<close>

definition exec_script ::
    "'v interp \<Rightarrow> string \<Rightarrow> (string \<times> string) list \<Rightarrow> string \<Rightarrow> world \<Rightarrow>
     'v namespace result \<times> world" where
  "exec_script interp py_file package tmpdir w =
     (let w1 = w\<lparr>sys_path := tmpdir # sys_path w\<rparr>
      in case interp py_file package w1 of
           (res, w2) \<Rightarrow>
             if tmpdir \<in> set (sys_path w2)
             then (res, purge_helper_modules (w2\<lparr>sys_path := remove1 tmpdir (sys_path w2)\<rparr>))
             else (Inl ValueError, w2))"

text \<open>
  \<^verbatim>\<open>Namespace.load_file_as_namespace\<close>. \<open>tmp\<close> is the name of the throwaway
  directory \<^verbatim>\<open>tempfile.TemporaryDirectory()\<close> creates, \<open>None\<close> when it
  cannot. Leaving the \<^verbatim>\<open>with\<close> block deletes the directory on every path.
  Of the directory's content only the helper sources matter, which go to the interpreter.
\<close>

definition load_file_as_namespace ::
    "'v interp \<Rightarrow> string option \<Rightarrow> exercises_repo \<Rightarrow> path \<Rightarrow> world \<Rightarrow>
     'v namespace result \<times> exercises_repo \<times> world" where
  "load_file_as_namespace interp tmp exercises_repo file_path w =
     (let w1 = w\<lparr>dont_write_bytecode := True\<rparr>
      in case fetch_file_contents file_path False exercises_repo (tmp_dirs w1) of
           (Inl e, s1) \<Rightarrow> (Inl e, s1, w1)
         | (Inr py_file, s1) \<Rightarrow>
             (let w2 = purge_helper_modules w1
              in case tmp of
                   None \<Rightarrow> (Inl OSError, s1, w2)
                 | Some tmpdir \<Rightarrow>
                     (let w3 = w2\<lparr>tmp_dirs := tmpdir # tmp_dirs w2\<rparr>
                      in case fetch_helpers EXERCISE_UTILS_FILES s1 (tmp_dirs w3) of
                           (Inl e, s2) \<Rightarrow>
                             (Inl e, s2, w3\<lparr>tmp_dirs := cleanup tmpdir (tmp_dirs w3)\<rparr>)
                         | (Inr package, s2) \<Rightarrow>
                             (case exec_script interp (ensure_str py_file) package tmpdir w3 of
                                (Inl e, w4) \<Rightarrow>
                                  (Inl e, s2, w4\<lparr>tmp_dirs := cleanup tmpdir (tmp_dirs w4)\<rparr>)
                              | (Inr namespace, w4) \<Rightarrow>
                                  (Inr namespace, s2,
                                   w4\<lparr>tmp_dirs := cleanup tmpdir (tmp_dirs w4),
                                      dont_write_bytecode := False\<rparr>)))))"

text \<open>
  The process state in which \<open>load_file_as_namespace\<close> runs the script, once both the
  script and the helpers have been read.
\<close>

definition exec_world :: "string \<Rightarrow> world \<Rightarrow> world" where
  "exec_world tmpdir w =
     (purge_helper_modules (w\<lparr>dont_write_bytecode := True\<rparr>))
       \<lparr>tmp_dirs := tmpdir # tmp_dirs w, sys_path := tmpdir # sys_path w\<rparr>"

text \<open>
  \<^verbatim>\<open>inspect.signature(func)\<close>: the declared parameters of a function;
  \<^verbatim>\<open>TypeError\<close> for an object that is not callable.
\<close>

definition signature :: "'v py_object \<Rightarrow> param list result" where
  "signature func = (case func of Function f \<Rightarrow> Inr (parameters f) | Plain v \<Rightarrow> Inl TypeError)"

text \<open>
  Python's binding of a call \<^verbatim>\<open>f(**kwargs)\<close>. A keyword is taken by the
  positional-or-keyword or keyword-only parameter of that name, else by a
  \<^verbatim>\<open>**\<close> parameter if the function has one, else the call raises
  \<^verbatim>\<open>TypeError\<close>; so does a call that leaves a parameter without default
  unbound. Only then does the body run.
\<close>

definition takes_keyword :: "param \<Rightarrow> bool" where
  "takes_keyword p \<longleftrightarrow> kind p = PositionalOrKeyword \<or> kind p = KeywordOnly"

definition accepts_keyword :: "param list \<Rightarrow> string \<Rightarrow> bool" where
  "accepts_keyword ps k \<longleftrightarrow>
     (\<exists>p \<in> set ps. pname p = k \<and> takes_keyword p) \<or> (\<exists>p \<in> set ps. kind p = VarKeyword)"

definition is_required :: "param \<Rightarrow> bool" where
  "is_required p \<longleftrightarrow>
     \<not> has_default p \<and> kind p \<noteq> VarPositional \<and> kind p \<noteq> VarKeyword"

definition call_function ::
    "'v py_function \<Rightarrow> (string \<times> 'v) list \<Rightarrow> world \<Rightarrow> 'v option result \<times> world" where
  "call_function f kwargs w =
     (if \<exists>k \<in> set (map fst kwargs). \<not> accepts_keyword (parameters f) k then (Inl TypeError, w)
      else if \<exists>p \<in> set (parameters f).
                is_required p \<and> \<not> (takes_keyword p \<and> pname p \<in> set (map fst kwargs))
      then (Inl TypeError, w)
      else body f kwargs w)"

definition call_object ::
    "'v py_object \<Rightarrow> (string \<times> 'v) list \<Rightarrow> world \<Rightarrow> 'v option result \<times> world" where
  "call_object func kwargs w =
     (case func of Function f \<Rightarrow> call_function f kwargs w | Plain v \<Rightarrow> (Inl TypeError, w))"

text \<open>
  \<^verbatim>\<open>Namespace.execute_function\<close>. \<open>Inr None\<close> is Python's
  \<^verbatim>\<open>None\<close>.
\<close>

definition execute_function ::
    "'v namespace \<Rightarrow> string \<Rightarrow> (string \<times> 'v) list \<Rightarrow> world \<Rightarrow> 'v option result \<times> world" where
  "execute_function namespace function_name params w =
     (case namespace function_name of
        None \<Rightarrow> (Inr None, w\<lparr>dont_write_bytecode := False\<rparr>)
      | Some func \<Rightarrow>
          (case signature func of
             Inl e \<Rightarrow> (Inl e, w)
           | Inr sig \<Rightarrow>
               (let valid_params = filter (\<lambda>(k, v). k \<in> set (map pname sig)) params
                in case call_object func valid_params w of
                     (Inl e, w') \<Rightarrow> (Inl e, w')
                   | (Inr result, w') \<Rightarrow> (Inr result, w'\<lparr>dont_write_bytecode := False\<rparr>))))"

text \<open>A caller that makes one call after another on the same namespace.\<close>

fun execute_functions ::
    "'v namespace \<Rightarrow> (string \<times> (string \<times> 'v) list) list \<Rightarrow> world \<Rightarrow>
     'v option result list \<times> world" where
  "execute_functions namespace [] w = ([], w)"
| "execute_functions namespace ((function_name, params) # calls) w =
     (case execute_function namespace function_name params w of
        (res, w1) \<Rightarrow>
          (case execute_functions namespace calls w1 of
             (ress, w2) \<Rightarrow> (res # ress, w2)))"

section \<open>Notions used in the statements\<close>

text \<open>The fetcher's ephemeral directory is still on the disk.\<close>

definition residual :: "exercises_repo \<Rightarrow> disk \<Rightarrow> bool" where
  "residual s d \<longleftrightarrow> (case priv_temp_dir s of None \<Rightarrow> False | Some name \<Rightarrow> name \<in> set d)"

text \<open>
  Two behaviours of fetched code that are the same whenever the module registry holds
  no helper module, and may differ in any way when it holds one.
\<close>

definition agree_without_helpers :: "'v interp \<Rightarrow> 'v interp \<Rightarrow> bool" where
  "agree_without_helpers interp interp' \<longleftrightarrow>
     (\<forall>py_file package w. no_helper_modules w \<longrightarrow>
        interp' py_file package w = interp py_file package w)"

text \<open>
  A path as Python prints it, and an exception that carries a path: as the file name of
  an \<^verbatim>\<open>OSError\<close>, or somewhere in the message.
\<close>

fun path_string :: "path \<Rightarrow> string" where
  "path_string [] = []"
| "path_string [c] = c"
| "path_string (c # cs) = c @ ''/'' @ path_string cs"

definition mentions_path :: "py_error \<Rightarrow> path \<Rightarrow> bool" where
  "mentions_path e p \<longleftrightarrow>
     (case e of
        FileNotFoundError q \<Rightarrow> q = p
      | IsADirectoryError q \<Rightarrow> q = p
      | NotADirectoryError q \<Rightarrow> q = p
      | Raised cls msg \<Rightarrow> sublist (path_string p) msg
      | _ \<Rightarrow> False)"

section \<open>Example data\<close>

definition demo_world :: world where
  "demo_world =
     \<lparr>sys_modules = [(''os'', ''os.py'')], sys_path = [''/usr/lib/python3''],
      dont_write_bytecode = False, tmp_dirs = []\<rparr>"

text \<open>\<^verbatim>\<open>def verify(repo_path): return repo_path\<close>\<close>

definition verify_function :: "string py_function" where
  "verify_function =
     \<lparr>parameters = [\<lparr>pname = ''repo_path'', kind = PositionalOrKeyword, has_default = False\<rparr>],
      body = (\<lambda>kwargs w. (Inr (map_of kwargs ''repo_path''), w))\<rparr>"

text \<open>\<^verbatim>\<open>def check(repo_path, /): return None\<close>\<close>

definition positional_only_function :: "string py_function" where
  "positional_only_function =
     \<lparr>parameters = [\<lparr>pname = ''repo_path'', kind = PositionalOnly, has_default = False\<rparr>],
      body = (\<lambda>kwargs w. (Inr None, w))\<rparr>"

definition demo_namespace :: "string namespace" where
  "demo_namespace =
     [''verify'' \<mapsto> Function verify_function, ''VERSION'' \<mapsto> Plain ''1.0'',
      ''check'' \<mapsto> Function positional_only_function]"

text \<open>
  A remote with a readme, two exercise scripts, an image and the seven helper modules;
  a session on it whose clone lives in \<^verbatim>\<open>/tmp/clone\<close>, on a machine whose
  locale encoding is ASCII. What is outside the ordinary paths plays no part in the
  examples: there git refuses the argument and no such path exists.
\<close>

definition demo_remote :: "(path \<times> string) list" where
  "demo_remote =
     [([''README.md''], ''exercises''),
      ([''hello'', ''download.py''], ''def download(): pass''),
      ([''hello'', ''broken.py''], ''raise RuntimeError''),
      ([''hello'', ''logo.png''], [CHR 0x89, CHR ''P'', CHR ''N'', CHR ''G''])] @
     map (\<lambda>n. ([''exercise_utils'', n @ ''.py''], ''# '' @ n)) EXERCISE_UTILS_FILES"

text \<open>
  Universal newlines: \<^verbatim>\<open>\r\n\<close> and a lone \<^verbatim>\<open>\r\<close> are read as
  \<^verbatim>\<open>\n\<close>.
\<close>

fun universal_newlines :: "string \<Rightarrow> string" where
  "universal_newlines [] = []"
| "universal_newlines [c] = (if c = CHR 0x0D then [CHR 0x0A] else [c])"
| "universal_newlines (c # c' # cs) =
     (if c = CHR 0x0D
      then (if c' = CHR 0x0A then CHR 0x0A # universal_newlines cs
            else CHR 0x0A # universal_newlines (c' # cs))
      else c # universal_newlines (c' # cs))"

definition ascii_text :: "string \<Rightarrow> string option" where
  "ascii_text bytes =
     (if \<forall>ch \<in> set bytes. (of_char ch :: nat) < 128 then Some (universal_newlines bytes)
      else None)"

definition demo_surroundings :: surroundings where
  "demo_surroundings =
     \<lparr>decode = ascii_text,
      git_odd = (\<lambda>p. None),
      exists_odd = (\<lambda>p. False),
      read_odd = (\<lambda>p is_binary. Inl (FileNotFoundError p))\<rparr>"

definition demo_clone_from :: "string \<Rightarrow> string \<Rightarrow> git_repo result" where
  "demo_clone_from source dir =
     (if source = ''exercises''
      then Inr \<lparr>working_dir = dir, remote_files = demo_remote, sparse = [],
                around = demo_surroundings\<rparr>
      else Inl GitCommandError)"

definition demo_git_repo :: git_repo where
  "demo_git_repo =
     \<lparr>working_dir = ''/tmp/clone'', remote_files = demo_remote, sparse = [],
      around = demo_surroundings\<rparr>"

definition demo_repo :: exercises_repo where
  "demo_repo = \<lparr>priv_repo = Some demo_git_repo, priv_temp_dir = Some ''/tmp/clone''\<rparr>"

definition after_download :: git_repo where
  "after_download = demo_git_repo\<lparr>sparse := [[''hello'', ''download.py'']]\<rparr>"

text \<open>A block of a \<^verbatim>\<open>with\<close> statement that is interrupted.\<close>

definition failing_body :: "exercises_repo \<Rightarrow> disk \<Rightarrow> bool result \<times> exercises_repo \<times> disk" where
  "failing_body s d = (Inl (Raised ''KeyboardInterrupt'' []), s, d)"

text \<open>
  A process in which the session above is open and a helper module is still registered.
\<close>

definition session_world :: world where
  "session_world =
     \<lparr>sys_modules = [(''os'', ''os.py''), (''exercise_utils'', ''__init__.py'')],
      sys_path = [''/usr/lib/python3''],
      dont_write_bytecode = False, tmp_dirs = [''/tmp/clone'']\<rparr>"

text \<open>\<^verbatim>\<open>def download(): pass\<close>\<close>

definition download_function :: "string py_function" where
  "download_function = \<lparr>parameters = [], body = (\<lambda>kwargs w. (Inr None, w))\<rparr>"

text \<open>
  Fetched code that imports two helper modules and then either raises or binds
  \<^verbatim>\<open>download\<close>.
\<close>

definition demo_interp :: "string interp" where
  "demo_interp py_file package w =
     (let w' = w\<lparr>sys_modules := sys_modules w @
                  [(''exercise_utils'', ''__init__.py''), (''exercise_utils.git'', ''git.py'')]\<rparr>
      in if py_file = ''raise RuntimeError''
         then (Inl (Raised ''RuntimeError'' ''boom''), w')
         else (Inr [''download'' \<mapsto> Function download_function], w'))"

text \<open>
  Fetched code that imports a helper module, empties the module search path and raises.
\<close>

definition unruly_interp :: "string interp" where
  "unruly_interp py_file package w =
     (Inl (Raised ''RuntimeError'' ''boom''),
      w\<lparr>sys_modules := sys_modules w @ [(''exercise_utils'', ''__init__.py'')],
        sys_path := []\<rparr>)"

text \<open>Fetched code that clears the bytecode flag and raises.\<close>

definition flag_clearing_interp :: "string interp" where
  "flag_clearing_interp py_file package w =
     (Inl (Raised ''RuntimeError'' ''boom''), w\<lparr>dont_write_bytecode := False\<rparr>)"

definition after_broken_script :: world where
  "after_broken_script =
     \<lparr>sys_modules = [(''os'', ''os.py''), (''exercise_utils'', ''__init__.py''),
                     (''exercise_utils.git'', ''git.py'')],
      sys_path = [''/tmp/pkg'', ''/usr/lib/python3''],
      dont_write_bytecode = True, tmp_dirs = [''/tmp/pkg'', ''/tmp/clone'']\<rparr>"

section \<open>Properties of the fetcher\<close>

lemma checkout_live:
  "priv_repo s = Some r \<Longrightarrow> working_dir r \<in> set d \<Longrightarrow> ordinary p \<Longrightarrow>
   checkout p s d = (Inr (), s\<lparr>priv_repo := Some (r\<lparr>sparse := [p]\<rparr>)\<rparr>)"
  by (simp add: checkout_def repo_def sparse_checkout_set_def)

lemma ordinary_not_special: "ordinary p \<Longrightarrow> p \<noteq> [] \<and> p \<noteq> [''.git'']"
  by (auto simp: ordinary_def)

lemma ordinary_prefix: "ordinary p \<Longrightarrow> prefix q p \<Longrightarrow> q \<noteq> [] \<Longrightarrow> ordinary q"
  by (cases q; cases p; cases "hd p") (auto simp: ordinary_def prefix_def)

lemma materialized_single:
  "(f, c) \<in> set (materialized (r\<lparr>sparse := [P]\<rparr>)) \<longleftrightarrow>
   (f, c) \<in> set (remote_files r) \<and>
   (butlast f = [] \<or> strict_prefix (butlast f) P \<or> prefix P f)"
  by (auto simp: materialized_def in_cone_def)

lemma materialized_subset: "set (materialized r) \<subseteq> set (remote_files r)"
  by (auto simp: materialized_def)

lemma ordinary_exists_iff:
  assumes "ordinary P"
  shows "path_exists (r\<lparr>sparse := [P]\<rparr>) P \<longleftrightarrow> remote_has r P"
proof -
  from assms have "P \<noteq> []" "P \<noteq> [''.git'']"
    by (simp_all add: ordinary_not_special)
  with assms show ?thesis
    by (auto simp: path_exists_def remote_has_def materialized_single)
qed

text \<open>
  Claim C6, as stated, fails: \<^verbatim>\<open>.git\<close> is no path of the remote repository, yet
  the checkout of it succeeds and \<open>has_file\<close> returns \<^verbatim>\<open>True\<close>, because the
  clone's own \<^verbatim>\<open>.git\<close> directory is what \<^verbatim>\<open>os.path.exists\<close> finds.
\<close>

theorem has_file_git_dir_counterexample:
  "\<not> remote_has demo_git_repo [''.git''] \<and>
   has_file [''.git''] demo_repo [''/tmp/clone'']
     = (Inr True, demo_repo\<lparr>priv_repo := Some (demo_git_repo\<lparr>sparse := [[''.git'']]\<rparr>)\<rparr>)"
  by (simp add: has_file_def checkout_def repo_def sparse_checkout_set_def path_exists_def
      remote_has_def demo_repo_def demo_git_repo_def demo_remote_def EXERCISE_UTILS_FILES_def)

text \<open>
  Claim C6, amended. On an open session and for every ordinary path \<open>P\<close> (relative,
  made of plain file names, outside \<^verbatim>\<open>.git\<close>, not option-like): the sparse
  checkout of \<open>P\<close> succeeds whether or not the remote has \<open>P\<close>, and \<open>has_file\<close> raises
  nothing and returns whether \<open>P\<close> exists on disk after that checkout, which is the
  case exactly when the remote repository has \<open>P\<close>. So for \<open>P\<close> not present in the
  remote it returns \<^verbatim>\<open>False\<close>.
\<close>

theorem has_file_absent_path:
  assumes handle: "priv_repo s = Some r"
      and dir: "working_dir r \<in> set d"
      and plain: "ordinary P"
  shows "fst (checkout P s d) = Inr () \<and>
         has_file P s d
           = (Inr (path_exists (r\<lparr>sparse := [P]\<rparr>) P), s\<lparr>priv_repo := Some (r\<lparr>sparse := [P]\<rparr>)\<rparr>) \<and>
         (path_exists (r\<lparr>sparse := [P]\<rparr>) P \<longleftrightarrow> remote_has r P) \<and>
         (\<not> remote_has r P \<longrightarrow>
            has_file P s d = (Inr False, s\<lparr>priv_repo := Some (r\<lparr>sparse := [P]\<rparr>)\<rparr>))"
proof -
  have co: "checkout P s d = (Inr (), s\<lparr>priv_repo := Some (r\<lparr>sparse := [P]\<rparr>)\<rparr>)"
    using handle dir plain by (rule checkout_live)
  then have hf: "has_file P s d
      = (Inr (path_exists (r\<lparr>sparse := [P]\<rparr>) P), s\<lparr>priv_repo := Some (r\<lparr>sparse := [P]\<rparr>)\<rparr>)"
    by (simp add: has_file_def repo_def)
  have ex: "path_exists (r\<lparr>sparse := [P]\<rparr>) P \<longleftrightarrow> remote_has r P"
    using plain by (rule ordinary_exists_iff)
  from co hf ex show ?thesis by simp
qed

theorem has_file_absent_path_witness:
  "has_file [''hello'', ''verify.py''] demo_repo [''/tmp/clone'']
     = (Inr False,
        demo_repo\<lparr>priv_repo := Some (demo_git_repo\<lparr>sparse := [[''hello'', ''verify.py'']]\<rparr>)\<rparr>) \<and>
   has_file [''hello'', ''download.py''] demo_repo [''/tmp/clone'']
     = (Inr True,
        demo_repo\<lparr>priv_repo := Some (demo_git_repo\<lparr>sparse := [[''hello'', ''download.py'']]\<rparr>)\<rparr>)"
  using has_file_absent_path [of demo_repo demo_git_repo "[''/tmp/clone'']"
          "[''hello'', ''verify.py'']"]
        has_file_absent_path [of demo_repo demo_git_repo "[''/tmp/clone'']"
          "[''hello'', ''download.py'']"]
  by (simp add: demo_repo_def demo_git_repo_def remote_has_def demo_remote_def
      EXERCISE_UTILS_FILES_def ordinary_def plain_component_def name_char_def)

text \<open>
  Claim C7, as stated, fails: the clone is in cone mode, so after the checkout of a file
  the working tree also holds the files of the root and the file's siblings, which are
  neither the path nor directories above it.
\<close>

theorem checkout_cone_counterexample:
  "checkout [''hello'', ''download.py''] demo_repo [''/tmp/clone'']
     = (Inr (), demo_repo\<lparr>priv_repo := Some after_download\<rparr>) \<and>
   path_exists after_download [''README.md''] \<and>
   path_exists after_download [''hello'', ''broken.py''] \<and>
   \<not> prefix [''README.md''] [''hello'', ''download.py''] \<and>
   \<not> prefix [''hello'', ''broken.py''] [''hello'', ''download.py'']"
  by (simp add: checkout_def repo_def sparse_checkout_set_def path_exists_def
      after_download_def demo_repo_def demo_git_repo_def demo_remote_def
      EXERCISE_UTILS_FILES_def materialized_def in_cone_def ordinary_def
      plain_component_def name_char_def)

text \<open>
  Claim C7, amended. On an open session and for every ordinary path \<open>P\<close>,
  \<open>checkout P\<close> succeeds and leaves \<open>[P]\<close> as the whole pattern list, whatever the list
  was before: the pattern is replaced, not extended. The working tree then holds
  exactly the remote files that lie in the root, directly in a directory above \<open>P\<close>,
  or at or below \<open>P\<close>; if the remote has \<open>P\<close>, then \<open>P\<close> and every directory above
  it exist; and a file that an earlier checkout materialised is gone unless it is one
  of those files.
\<close>

theorem checkout_replaces_pattern:
  assumes handle: "priv_repo s = Some r"
      and dir: "working_dir r \<in> set d"
      and plain: "ordinary P"
  shows "checkout P s d = (Inr (), s\<lparr>priv_repo := Some (r\<lparr>sparse := [P]\<rparr>)\<rparr>) \<and>
         (\<forall>f c. (f, c) \<in> set (materialized (r\<lparr>sparse := [P]\<rparr>)) \<longleftrightarrow>
            (f, c) \<in> set (remote_files r) \<and>
            (butlast f = [] \<or> strict_prefix (butlast f) P \<or> prefix P f)) \<and>
         (remote_has r P \<longrightarrow> (\<forall>q. prefix q P \<longrightarrow> path_exists (r\<lparr>sparse := [P]\<rparr>) q)) \<and>
         (\<forall>Q c. (Q, c) \<in> set (materialized r) \<and>
                \<not> (butlast Q = [] \<or> strict_prefix (butlast Q) P \<or> prefix P Q) \<longrightarrow>
                (Q, c) \<notin> set (materialized (r\<lparr>sparse := [P]\<rparr>)))"
proof (intro conjI allI impI)
  show "checkout P s d = (Inr (), s\<lparr>priv_repo := Some (r\<lparr>sparse := [P]\<rparr>)\<rparr>)"
    using handle dir plain by (rule checkout_live)
next
  fix f c
  show "(f, c) \<in> set (materialized (r\<lparr>sparse := [P]\<rparr>)) \<longleftrightarrow>
            (f, c) \<in> set (remote_files r) \<and>
            (butlast f = [] \<or> strict_prefix (butlast f) P \<or> prefix P f)"
    by (rule materialized_single)
next
  fix q
  assume has: "remote_has r P" and above: "prefix q P"
  show "path_exists (r\<lparr>sparse := [P]\<rparr>) q"
  proof (cases "q = []")
    case True
    then show ?thesis by (simp add: path_exists_def)
  next
    case False
    with plain above have q: "ordinary q"
      by (rule ordinary_prefix)
    from plain has obtain f c where f: "(f, c) \<in> set (remote_files r)" "prefix P f"
      by (auto simp: remote_has_def dest: ordinary_not_special)
    then have "(f, c) \<in> set (materialized (r\<lparr>sparse := [P]\<rparr>))"
      by (simp add: materialized_single)
    moreover from above f have "prefix q f"
      by (auto intro: prefix_order.trans)
    ultimately show ?thesis
      using q False by (auto simp: path_exists_def dest: ordinary_not_special)
  qed
next
  fix Q c
  assume "(Q, c) \<in> set (materialized r) \<and>
          \<not> (butlast Q = [] \<or> strict_prefix (butlast Q) P \<or> prefix P Q)"
  then show "(Q, c) \<notin> set (materialized (r\<lparr>sparse := [P]\<rparr>))"
    by (simp add: materialized_single)
qed

theorem checkout_replaces_pattern_witness:
  "map fst (materialized after_download)
     = [[''README.md''], [''hello'', ''download.py''], [''hello'', ''broken.py''],
        [''hello'', ''logo.png'']] \<and>
   checkout [''exercise_utils'', ''git.py''] (demo_repo\<lparr>priv_repo := Some after_download\<rparr>)
       [''/tmp/clone'']
     = (Inr (), demo_repo\<lparr>priv_repo :=
         Some (after_download\<lparr>sparse := [[''exercise_utils'', ''git.py'']]\<rparr>)\<rparr>) \<and>
   path_exists (after_download\<lparr>sparse := [[''exercise_utils'', ''git.py'']]\<rparr>)
     [''exercise_utils''] \<and>
   path_exists (after_download\<lparr>sparse := [[''exercise_utils'', ''git.py'']]\<rparr>)
     [''exercise_utils'', ''git.py''] \<and>
   \<not> path_exists (after_download\<lparr>sparse := [[''exercise_utils'', ''git.py'']]\<rparr>)
     [''hello'', ''download.py'']"
  using checkout_replaces_pattern [of "demo_repo\<lparr>priv_repo := Some after_download\<rparr>"
      after_download "[''/tmp/clone'']" "[''exercise_utils'', ''git.py'']"]
  by (simp add: after_download_def demo_repo_def demo_git_repo_def demo_remote_def
      EXERCISE_UTILS_FILES_def materialized_def in_cone_def path_exists_def ordinary_def
      plain_component_def name_char_def)

lemma map_of_materialized_exists:
  "ordinary p \<Longrightarrow> map_of (materialized r) p = Some c \<Longrightarrow> path_exists r p"
  by (auto simp: path_exists_def dest: map_of_SomeD)

lemma fetch_file_contents_live:
  assumes "priv_repo s = Some r" and "working_dir r \<in> set d" and "ordinary P"
  shows "fetch_file_contents P is_binary s d
           = (open_read (r\<lparr>sparse := [P]\<rparr>) P is_binary,
              s\<lparr>priv_repo := Some (r\<lparr>sparse := [P]\<rparr>)\<rparr>)"
  using checkout_live [OF assms] by (simp add: fetch_file_contents_def repo_def)

text \<open>
  Claim C8, as stated, fails: for the path of a directory of the remote the checkout
  leaves the path on disk, and \<open>fetch_file_contents\<close> returns no contents but raises
  \<^verbatim>\<open>IsADirectoryError\<close>, so it also fails when the path does exist.
\<close>

theorem read_directory_counterexample:
  "path_exists (demo_git_repo\<lparr>sparse := [[''exercise_utils'']]\<rparr>) [''exercise_utils''] \<and>
   fetch_file_contents [''exercise_utils''] False demo_repo [''/tmp/clone'']
     = (Inl (IsADirectoryError [''exercise_utils'']),
        demo_repo\<lparr>priv_repo := Some (demo_git_repo\<lparr>sparse := [[''exercise_utils'']]\<rparr>)\<rparr>)"
  by (simp add: fetch_file_contents_def checkout_def repo_def sparse_checkout_set_def
      open_read_def demo_repo_def demo_git_repo_def demo_remote_def EXERCISE_UTILS_FILES_def
      materialized_def in_cone_def path_exists_def ordinary_def plain_component_def
      name_char_def)

text \<open>
  Claim C8, amended. On an open session and for every ordinary path,
  \<open>fetch_file_contents\<close> first performs the checkout of the path (the pattern list
  becomes the path alone). If the path is then a regular file on disk, it returns the
  whole content of the file: the bytes in binary mode, their decoding as text in text
  mode, where it raises \<^verbatim>\<open>UnicodeDecodeError\<close> instead when the bytes cannot be
  decoded. It returns contents in no other case: it raises
  \<^verbatim>\<open>IsADirectoryError\<close> exactly when the path exists on disk but is no regular
  file, and it raises \<^verbatim>\<open>FileNotFoundError\<close> or \<^verbatim>\<open>NotADirectoryError\<close>
  exactly when the path does not exist on disk after the checkout, the latter exactly
  when a regular file lies on the path above it.
\<close>

theorem fetch_file_contents_outcomes:
  assumes handle: "priv_repo s = Some r"
      and dir: "working_dir r \<in> set d"
      and plain: "ordinary P"
  shows "snd (fetch_file_contents P is_binary s d) = s\<lparr>priv_repo := Some (r\<lparr>sparse := [P]\<rparr>)\<rparr> \<and>
         (\<forall>c. map_of (materialized (r\<lparr>sparse := [P]\<rparr>)) P = Some c \<longrightarrow>
            fst (fetch_file_contents P is_binary s d)
              = (if is_binary then Inr (Bytes c)
                 else case decode (around r) c of
                        Some t \<Rightarrow> Inr (Text t)
                      | None \<Rightarrow> Inl UnicodeDecodeError)) \<and>
         ((\<exists>v. fst (fetch_file_contents P is_binary s d) = Inr v) \<longrightarrow>
            (\<exists>c. map_of (materialized (r\<lparr>sparse := [P]\<rparr>)) P = Some c)) \<and>
         (fst (fetch_file_contents P is_binary s d) = Inl (IsADirectoryError P)
            \<longleftrightarrow> path_exists (r\<lparr>sparse := [P]\<rparr>) P \<and>
                map_of (materialized (r\<lparr>sparse := [P]\<rparr>)) P = None) \<and>
         (fst (fetch_file_contents P is_binary s d) = Inl (FileNotFoundError P) \<or>
          fst (fetch_file_contents P is_binary s d) = Inl (NotADirectoryError P)
            \<longleftrightarrow> \<not> path_exists (r\<lparr>sparse := [P]\<rparr>) P) \<and>
         (fst (fetch_file_contents P is_binary s d) = Inl (NotADirectoryError P)
            \<longleftrightarrow> \<not> path_exists (r\<lparr>sparse := [P]\<rparr>) P \<and>
                (\<exists>(f, c) \<in> set (materialized (r\<lparr>sparse := [P]\<rparr>)). strict_prefix f P))"
proof -
  let ?r = "r\<lparr>sparse := [P]\<rparr>"
  have eq: "fetch_file_contents P is_binary s d
              = (open_read ?r P is_binary, s\<lparr>priv_repo := Some ?r\<rparr>)"
    using handle dir plain by (rule fetch_file_contents_live)
  from plain have special: "P \<noteq> []" "P \<noteq> [''.git'']"
    by (simp_all add: ordinary_not_special)
  show ?thesis
  proof (cases "map_of (materialized ?r) P")
    case None
    with plain special show ?thesis
      unfolding eq by (simp add: open_read_def)
  next
    case (Some c)
    with plain have "path_exists ?r P"
      by (rule map_of_materialized_exists)
    with Some plain special show ?thesis
      unfolding eq by (auto simp: open_read_def split: option.splits)
  qed
qed

lemma open_read_file:
  assumes "ordinary p" and "map_of (materialized r) p = Some c"
  shows "open_read r p is_binary
           = (if is_binary then Inr (Bytes c)
              else case decode (around r) c of
                     Some t \<Rightarrow> Inr (Text t)
                   | None \<Rightarrow> Inl UnicodeDecodeError)"
  using assms by (auto simp: open_read_def dest: ordinary_not_special)

lemma demo_handle: "priv_repo demo_repo = Some demo_git_repo"
  by (simp add: demo_repo_def)

lemma demo_dir: "working_dir demo_git_repo \<in> set [''/tmp/clone'']"
  by (simp add: demo_git_repo_def)

lemma demo_decode: "decode (around demo_git_repo) = ascii_text"
  by (simp add: demo_git_repo_def demo_surroundings_def)

lemma demo_ordinary:
  "ordinary [''hello'', ''download.py'']"
  "ordinary [''hello'', ''broken.py'']"
  "ordinary [''hello'', ''logo.png'']"
  "ordinary [''hello'', ''verify.py'']"
  "ordinary [''README.md'', ''intro'']"
  by (simp_all add: ordinary_def plain_component_def name_char_def)

lemma demo_ascii:
  "ascii_text ''def download(): pass'' = Some ''def download(): pass''"
  "ascii_text ''raise RuntimeError'' = Some ''raise RuntimeError''"
  "ascii_text [CHR 0x89, CHR ''P'', CHR ''N'', CHR ''G''] = None"
  by (simp_all add: ascii_text_def)

lemma demo_files:
  "map_of (materialized (demo_git_repo\<lparr>sparse := [[''hello'', ''download.py'']]\<rparr>))
     [''hello'', ''download.py''] = Some ''def download(): pass''"
  "map_of (materialized (demo_git_repo\<lparr>sparse := [[''hello'', ''broken.py'']]\<rparr>))
     [''hello'', ''broken.py''] = Some ''raise RuntimeError''"
  "map_of (materialized (demo_git_repo\<lparr>sparse := [[''hello'', ''logo.png'']]\<rparr>))
     [''hello'', ''logo.png''] = Some [CHR 0x89, CHR ''P'', CHR ''N'', CHR ''G'']"
  by (simp_all add: materialized_def in_cone_def demo_git_repo_def demo_remote_def
      EXERCISE_UTILS_FILES_def)

lemma demo_missing:
  "open_read (demo_git_repo\<lparr>sparse := [[''hello'', ''verify.py'']]\<rparr>)
     [''hello'', ''verify.py''] True = Inl (FileNotFoundError [''hello'', ''verify.py''])"
  "open_read (demo_git_repo\<lparr>sparse := [[''README.md'', ''intro'']]\<rparr>)
     [''README.md'', ''intro''] True = Inl (NotADirectoryError [''README.md'', ''intro''])"
  by (simp_all add: open_read_def demo_ordinary path_exists_def materialized_def in_cone_def
      demo_git_repo_def demo_remote_def EXERCISE_UTILS_FILES_def)

theorem fetch_file_contents_outcomes_witness:
  "fst (fetch_file_contents [''hello'', ''logo.png''] False demo_repo [''/tmp/clone''])
     = Inl UnicodeDecodeError \<and>
   fst (fetch_file_contents [''hello'', ''logo.png''] True demo_repo [''/tmp/clone''])
     = Inr (Bytes [CHR 0x89, CHR ''P'', CHR ''N'', CHR ''G'']) \<and>
   fst (fetch_file_contents [''hello'', ''download.py''] False demo_repo [''/tmp/clone''])
     = Inr (Text ''def download(): pass'') \<and>
   fst (fetch_file_contents [''hello'', ''verify.py''] True demo_repo [''/tmp/clone''])
     = Inl (FileNotFoundError [''hello'', ''verify.py'']) \<and>
   fst (fetch_file_contents [''README.md'', ''intro''] True demo_repo [''/tmp/clone''])
     = Inl (NotADirectoryError [''README.md'', ''intro''])"
proof (intro conjI)
  show "fst (fetch_file_contents [''hello'', ''logo.png''] False demo_repo [''/tmp/clone''])
          = Inl UnicodeDecodeError"
    using fetch_file_contents_outcomes [OF demo_handle demo_dir demo_ordinary(3), of False,
        THEN conjunct2, THEN conjunct1, rule_format, OF demo_files(3)]
    by (simp add: demo_decode demo_ascii)
  show "fst (fetch_file_contents [''hello'', ''logo.png''] True demo_repo [''/tmp/clone''])
          = Inr (Bytes [CHR 0x89, CHR ''P'', CHR ''N'', CHR ''G''])"
    by (simp add: fetch_file_contents_live [OF demo_handle demo_dir] demo_ordinary
        open_read_file demo_files)
  show "fst (fetch_file_contents [''hello'', ''download.py''] False demo_repo [''/tmp/clone''])
          = Inr (Text ''def download(): pass'')"
    by (simp add: fetch_file_contents_live [OF demo_handle demo_dir] demo_ordinary
        open_read_file demo_files demo_decode demo_ascii)
  show "fst (fetch_file_contents [''hello'', ''verify.py''] True demo_repo [''/tmp/clone''])
          = Inl (FileNotFoundError [''hello'', ''verify.py''])"
    by (simp add: fetch_file_contents_live [OF demo_handle demo_dir] demo_ordinary
        demo_missing)
  show "fst (fetch_file_contents [''README.md'', ''intro''] True demo_repo [''/tmp/clone''])
          = Inl (NotADirectoryError [''README.md'', ''intro''])"
    by (simp add: fetch_file_contents_live [OF demo_handle demo_dir] demo_ordinary
        demo_missing)
qed

lemma exit_scope_no_residual:
  "\<not> residual (fst (snd (exit_scope s d))) (snd (snd (exit_scope s d)))"
  by (simp add: exit_scope_def residual_def cleanup_def split: option.splits)

lemma exit_scope_twice:
  "exit_scope s d = (res, s', d') \<Longrightarrow>
   res = Inr () \<and> s' = s \<and> exit_scope s' d' = (Inr (), s', d')"
  by (auto simp: exit_scope_def cleanup_def split: option.splits)

lemma enter_failed_then_exit:
  "enter (Some name) config default_source clone_from s d = (Inl e, s1, d1) \<Longrightarrow>
   name \<in> set d1 \<and> exit_scope s1 d1 = (Inr (), s1, removeAll name d1)"
  by (auto simp: enter_def exit_scope_def cleanup_def Let_def split: sum.splits)

lemma with_exercises_repo_releases:
  assumes entered: "enter tmp config default_source clone_from init d = (Inr u, s1, d1)"
      and frame: "\<forall>s d. priv_temp_dir (fst (snd (block s d))) = priv_temp_dir s"
  shows "fst (with_exercises_repo tmp config default_source clone_from block d)
           = fst (block s1 d1) \<and>
         \<not> residual
             (fst (snd (with_exercises_repo tmp config default_source clone_from block d)))
             (snd (snd (with_exercises_repo tmp config default_source clone_from block d)))"
proof -
  obtain res s2 d2 where b: "block s1 d1 = (res, s2, d2)"
    by (cases "block s1 d1")
  obtain s3 d3 where x: "exit_scope s2 d2 = (Inr (), s3, d3)"
    using exit_scope_twice [of s2 d2] by (cases "exit_scope s2 d2") auto
  have "\<not> residual s3 d3"
    using exit_scope_no_residual [of s2 d2] x by simp
  then show ?thesis
    using entered b x by (simp add: with_exercises_repo_def)
qed

text \<open>
  Claim C5. Once \<^verbatim>\<open>__enter__\<close> has returned, the \<^verbatim>\<open>with\<close> statement runs
  \<^verbatim>\<open>__exit__\<close> whether the block returns or raises (the block's outcome is passed
  on), and the ephemeral directory is gone afterwards, for every block that leaves the
  fetcher's private attributes alone. \<^verbatim>\<open>__exit__\<close> never raises, leaves no
  ephemeral directory of the fetcher on disk, and a second call does nothing. After an
  \<^verbatim>\<open>__enter__\<close> that failed once the directory had been created,
  \<^verbatim>\<open>__exit__\<close> does not raise and removes that directory.
\<close>

theorem release_guaranteed_and_idempotent:
  "(enter tmp config default_source clone_from init d = (Inr (), s1, d1) \<and>
      (\<forall>s d. priv_temp_dir (fst (snd (block s d))) = priv_temp_dir s) \<longrightarrow>
    fst (with_exercises_repo tmp config default_source clone_from block d)
      = fst (block s1 d1) \<and>
    \<not> residual
        (fst (snd (with_exercises_repo tmp config default_source clone_from block d)))
        (snd (snd (with_exercises_repo tmp config default_source clone_from block d)))) \<and>
   (\<exists>d'. exit_scope s d = (Inr (), s, d') \<and> \<not> residual s d' \<and>
         exit_scope s d' = (Inr (), s, d')) \<and>
   (enter (Some name) config default_source clone_from s d = (Inl e, s2, d2) \<longrightarrow>
    name \<in> set d2 \<and> fst (exit_scope s2 d2) = Inr () \<and>
    name \<notin> set (snd (snd (exit_scope s2 d2))))"
proof (intro conjI impI)
  assume a: "enter tmp config default_source clone_from init d = (Inr (), s1, d1) \<and>
      (\<forall>s d. priv_temp_dir (fst (snd (block s d))) = priv_temp_dir s)"
  then show "fst (with_exercises_repo tmp config default_source clone_from block d)
               = fst (block s1 d1)"
    using with_exercises_repo_releases [of tmp config default_source clone_from d "()" s1 d1 block]
    by simp
  from a show "\<not> residual
        (fst (snd (with_exercises_repo tmp config default_source clone_from block d)))
        (snd (snd (with_exercises_repo tmp config default_source clone_from block d)))"
    using with_exercises_repo_releases [of tmp config default_source clone_from d "()" s1 d1 block]
    by simp
next
  obtain res s' d' where x: "exit_scope s d = (res, s', d')"
    by (cases "exit_scope s d")
  from exit_scope_twice [OF x] exit_scope_no_residual [of s d] x
  show "\<exists>d'. exit_scope s d = (Inr (), s, d') \<and> \<not> residual s d' \<and>
             exit_scope s d' = (Inr (), s, d')"
    by auto
next
  assume f: "enter (Some name) config default_source clone_from s d = (Inl e, s2, d2)"
  from enter_failed_then_exit [OF f] show "name \<in> set d2" by simp
  from enter_failed_then_exit [OF f] show "fst (exit_scope s2 d2) = Inr ()" by simp
  from enter_failed_then_exit [OF f] show "name \<notin> set (snd (snd (exit_scope s2 d2)))" by simp
qed

theorem release_guaranteed_and_idempotent_witness:
  "with_exercises_repo (Some ''/tmp/clone'') None ''exercises'' demo_clone_from failing_body []
     = (Inl (Raised ''KeyboardInterrupt'' []), demo_repo, []) \<and>
   exit_scope demo_repo [''/tmp/clone''] = (Inr (), demo_repo, []) \<and>
   exit_scope demo_repo [] = (Inr (), demo_repo, []) \<and>
   enter (Some ''/tmp/clone'') (Some ''nowhere'') ''exercises'' demo_clone_from init []
     = (Inl GitCommandError, init\<lparr>priv_temp_dir := Some ''/tmp/clone''\<rparr>, [''/tmp/clone'']) \<and>
   exit_scope (init\<lparr>priv_temp_dir := Some ''/tmp/clone''\<rparr>) [''/tmp/clone'']
     = (Inr (), init\<lparr>priv_temp_dir := Some ''/tmp/clone''\<rparr>, [])"
  using release_guaranteed_and_idempotent [of "Some ''/tmp/clone''" None "''exercises''"
      demo_clone_from "[]" demo_repo "[''/tmp/clone'']" failing_body demo_repo "''/tmp/clone''"]
  by (simp add: failing_body_def with_exercises_repo_def exit_scope_def cleanup_def
      demo_repo_def demo_git_repo_def enter_def demo_clone_from_def init_def residual_def)

section \<open>Properties of \<open>load_file_as_namespace\<close>\<close>

lemma keys_fold_del_module:
  "fst ` set (fold del_module keys mods) = fst ` set mods - set keys"
proof (induction keys arbitrary: mods)
  case Nil
  show ?case by simp
next
  case (Cons key keys)
  have "fst ` set (del_module key mods) = fst ` set mods - {key}"
    by (auto simp: del_module_def image_iff)
  with Cons.IH [of "del_module key mods"] show ?case
    by auto
qed

lemma purge_no_helper_modules: "no_helper_modules (purge_helper_modules w)"
  by (auto simp: no_helper_modules_def purge_helper_modules_def keys_fold_del_module
      modules_to_remove_def)

lemma purge_other_fields:
  "sys_path (purge_helper_modules w) = sys_path w"
  "dont_write_bytecode (purge_helper_modules w) = dont_write_bytecode w"
  "tmp_dirs (purge_helper_modules w) = tmp_dirs w"
  by (simp_all add: purge_helper_modules_def)

lemma no_helper_modules_update [simp]:
  "no_helper_modules (w\<lparr>tmp_dirs := d\<rparr>) = no_helper_modules w"
  "no_helper_modules (w\<lparr>sys_path := sp\<rparr>) = no_helper_modules w"
  "no_helper_modules (w\<lparr>dont_write_bytecode := b\<rparr>) = no_helper_modules w"
  by (simp_all add: no_helper_modules_def)

lemma exec_world_clean: "no_helper_modules (exec_world tmpdir w)"
  by (simp add: exec_world_def purge_no_helper_modules)

lemma exec_script_clean:
  assumes "tmpdir \<in> set (sys_path
      (snd (interp py_file package (w\<lparr>sys_path := tmpdir # sys_path w\<rparr>))))"
  shows "no_helper_modules (snd (exec_script interp py_file package tmpdir w))"
proof -
  obtain res w' where
    run: "interp py_file package (w\<lparr>sys_path := tmpdir # sys_path w\<rparr>) = (res, w')"
    by (cases "interp py_file package (w\<lparr>sys_path := tmpdir # sys_path w\<rparr>)")
  with assms have "tmpdir \<in> set (sys_path w')" by simp
  with run show ?thesis
    by (simp add: exec_script_def purge_no_helper_modules)
qed

lemma exec_script_agree:
  assumes "agree_without_helpers interp interp'"
      and "no_helper_modules w"
  shows "exec_script interp' py_file package tmpdir w
           = exec_script interp py_file package tmpdir w"
  using assms by (simp add: exec_script_def agree_without_helpers_def)

text \<open>When the script cannot be read, that is all load does.\<close>

lemma load_read_failed:
  assumes "fetch_file_contents file_path False s (tmp_dirs w) = (Inl e, s1)"
  shows "load_file_as_namespace interp tmp s file_path w
           = (Inl e, s1, w\<lparr>dont_write_bytecode := True\<rparr>)"
  using assms by (simp add: load_file_as_namespace_def)

text \<open>What is left of \<open>load_file_as_namespace\<close> once the script has been read.\<close>

lemma load_script_read:
  assumes "fetch_file_contents file_path False s (tmp_dirs w) = (Inr py_file, s1)"
  shows "load_file_as_namespace interp tmp s file_path w =
     (case tmp of
        None \<Rightarrow> (Inl OSError, s1, purge_helper_modules (w\<lparr>dont_write_bytecode := True\<rparr>))
      | Some tmpdir \<Rightarrow>
          (let w3 = (purge_helper_modules (w\<lparr>dont_write_bytecode := True\<rparr>))
                      \<lparr>tmp_dirs := tmpdir # tmp_dirs w\<rparr>
           in case fetch_helpers EXERCISE_UTILS_FILES s1 (tmpdir # tmp_dirs w) of
                (Inl e, s2) \<Rightarrow> (Inl e, s2, w3\<lparr>tmp_dirs := cleanup tmpdir (tmp_dirs w3)\<rparr>)
              | (Inr package, s2) \<Rightarrow>
                  (case exec_script interp (ensure_str py_file) package tmpdir w3 of
                     (Inl e, w4) \<Rightarrow> (Inl e, s2, w4\<lparr>tmp_dirs := cleanup tmpdir (tmp_dirs w4)\<rparr>)
                   | (Inr namespace, w4) \<Rightarrow>
                       (Inr namespace, s2,
                        w4\<lparr>tmp_dirs := cleanup tmpdir (tmp_dirs w4),
                           dont_write_bytecode := False\<rparr>))))"
  using assms
  by (simp add: load_file_as_namespace_def Let_def purge_other_fields split: option.splits)

lemma exec_world_eq:
  "((purge_helper_modules (w\<lparr>dont_write_bytecode := True\<rparr>))\<lparr>tmp_dirs := tmpdir # tmp_dirs w\<rparr>)
     \<lparr>sys_path := tmpdir # sys_path w\<rparr> = exec_world tmpdir w"
  by (simp add: exec_world_def)

text \<open>The whole of it once the script has run.\<close>

lemma load_run:
  assumes read: "fetch_file_contents file_path False s (tmp_dirs w) = (Inr py_file, s1)"
      and helpers: "fetch_helpers EXERCISE_UTILS_FILES s1 (tmpdir # tmp_dirs w) = (Inr package, s2)"
      and run: "interp (ensure_str py_file) package (exec_world tmpdir w) = (res, w')"
  shows "load_file_as_namespace interp (Some tmpdir) s file_path w =
           (if tmpdir \<in> set (sys_path w')
            then (let w4 = purge_helper_modules (w'\<lparr>sys_path := remove1 tmpdir (sys_path w')\<rparr>)
                  in case res of
                       Inl e \<Rightarrow> (Inl e, s2, w4\<lparr>tmp_dirs := cleanup tmpdir (tmp_dirs w4)\<rparr>)
                     | Inr namespace \<Rightarrow>
                         (Inr namespace, s2,
                          w4\<lparr>tmp_dirs := cleanup tmpdir (tmp_dirs w4),
                             dont_write_bytecode := False\<rparr>))
            else (Inl ValueError, s2, w'\<lparr>tmp_dirs := cleanup tmpdir (tmp_dirs w')\<rparr>))"
proof -
  let ?w3 = "(purge_helper_modules (w\<lparr>dont_write_bytecode := True\<rparr>))
               \<lparr>tmp_dirs := tmpdir # tmp_dirs w\<rparr>"
  have "?w3\<lparr>sys_path := tmpdir # sys_path ?w3\<rparr> = exec_world tmpdir w"
    by (simp add: exec_world_def purge_other_fields)
  with run
  have "exec_script interp (ensure_str py_file) package tmpdir ?w3 =
          (if tmpdir \<in> set (sys_path w')
           then (res, purge_helper_modules (w'\<lparr>sys_path := remove1 tmpdir (sys_path w')\<rparr>))
           else (Inl ValueError, w'))"
    by (simp add: exec_script_def)
  then show ?thesis
    using helpers by (simp add: load_script_read [OF read] Let_def split: sum.splits)
qed

text \<open>The example session, step by step.\<close>

lemma session_tmp_dirs: "tmp_dirs session_world = [''/tmp/clone'']"
  by (simp add: session_world_def)

lemma demo_fetch_script:
  "fetch_file_contents [''hello'', ''broken.py''] False demo_repo [''/tmp/clone''] =
     (Inr (Text ''raise RuntimeError''),
      demo_repo\<lparr>priv_repo := Some (demo_git_repo\<lparr>sparse := [[''hello'', ''broken.py'']]\<rparr>)\<rparr>)"
  by (simp add: fetch_file_contents_live [OF demo_handle demo_dir] demo_ordinary
      open_read_file demo_files demo_decode demo_ascii)

lemma demo_helper_facts:
  "\<forall>n \<in> set EXERCISE_UTILS_FILES. ordinary [''exercise_utils'', n @ ''.py'']"
  "\<forall>n \<in> set EXERCISE_UTILS_FILES. ascii_text (''# '' @ n) = Some (''# '' @ n)"
  "\<forall>n \<in> set EXERCISE_UTILS_FILES.
     map_of (materialized (demo_git_repo\<lparr>sparse := [[''exercise_utils'', n @ ''.py'']]\<rparr>))
       [''exercise_utils'', n @ ''.py''] = Some (''# '' @ n)"
  by (simp_all add: EXERCISE_UTILS_FILES_def ordinary_def plain_component_def name_char_def
      ascii_text_def materialized_def in_cone_def demo_git_repo_def demo_remote_def)

lemma demo_fetch_helper:
  assumes n: "n \<in> set EXERCISE_UTILS_FILES"
  shows "fetch_file_contents [''exercise_utils'', n @ ''.py''] False
           (demo_repo\<lparr>priv_repo := Some (demo_git_repo\<lparr>sparse := ps\<rparr>)\<rparr>)
           [''/tmp/pkg'', ''/tmp/clone'']
         = (Inr (Text (''# '' @ n)),
            demo_repo\<lparr>priv_repo :=
              Some (demo_git_repo\<lparr>sparse := [[''exercise_utils'', n @ ''.py'']]\<rparr>)\<rparr>)"
proof -
  from n have ord: "ordinary [''exercise_utils'', n @ ''.py'']"
    and decoded: "ascii_text (''# '' @ n) = Some (''# '' @ n)"
    and stored: "map_of (materialized
          (demo_git_repo\<lparr>sparse := [[''exercise_utils'', n @ ''.py'']]\<rparr>))
        [''exercise_utils'', n @ ''.py''] = Some (''# '' @ n)"
    using demo_helper_facts by blast+
  have "open_read (demo_git_repo\<lparr>sparse := [[''exercise_utils'', n @ ''.py'']]\<rparr>)
          [''exercise_utils'', n @ ''.py''] False = Inr (Text (''# '' @ n))"
    using decoded by (simp add: open_read_file [OF ord stored] demo_decode)
  moreover have "fetch_file_contents [''exercise_utils'', n @ ''.py''] False
           (demo_repo\<lparr>priv_repo := Some (demo_git_repo\<lparr>sparse := ps\<rparr>)\<rparr>)
           [''/tmp/pkg'', ''/tmp/clone'']
      = (open_read (demo_git_repo\<lparr>sparse := ps, sparse := [[''exercise_utils'', n @ ''.py'']]\<rparr>)
           [''exercise_utils'', n @ ''.py''] False,
         demo_repo\<lparr>priv_repo := Some (demo_git_repo\<lparr>sparse := ps\<rparr>),
           priv_repo := Some (demo_git_repo\<lparr>sparse := ps,
             sparse := [[''exercise_utils'', n @ ''.py'']]\<rparr>)\<rparr>)"
    by (rule fetch_file_contents_live) (simp_all add: ord demo_git_repo_def)
  ultimately show ?thesis by simp
qed

lemma demo_fetch_helpers:
  "fetch_helpers EXERCISE_UTILS_FILES
      (demo_repo\<lparr>priv_repo := Some (demo_git_repo\<lparr>sparse := [[''hello'', ''broken.py'']]\<rparr>)\<rparr>)
      [''/tmp/pkg'', ''/tmp/clone'']
    = (Inr (map (\<lambda>n. (n @ ''.py'', ''# '' @ n)) EXERCISE_UTILS_FILES),
       demo_repo\<lparr>priv_repo :=
         Some (demo_git_repo\<lparr>sparse := [[''exercise_utils'', ''test.py'']]\<rparr>)\<rparr>)"
proof -
  have step: "fetch_helpers ns
      (demo_repo\<lparr>priv_repo := Some (demo_git_repo\<lparr>sparse := ps\<rparr>)\<rparr>)
      [''/tmp/pkg'', ''/tmp/clone'']
    = (Inr (map (\<lambda>n. (n @ ''.py'', ''# '' @ n)) ns),
       demo_repo\<lparr>priv_repo := Some (demo_git_repo\<lparr>sparse :=
         (if ns = [] then ps else [[''exercise_utils'', last ns @ ''.py'']])\<rparr>)\<rparr>)"
    if "set ns \<subseteq> set EXERCISE_UTILS_FILES" for ns ps
    using that
  proof (induction ns arbitrary: ps)
    case Nil
    show ?case by simp
  next
    case (Cons n ns)
    then have n: "n \<in> set EXERCISE_UTILS_FILES" and ns: "set ns \<subseteq> set EXERCISE_UTILS_FILES"
      by simp_all
    show ?case
      by (simp add: demo_fetch_helper [OF n] Cons.IH [OF ns] ensure_str_def)
  qed
  show ?thesis
    using step [of EXERCISE_UTILS_FILES "[[''hello'', ''broken.py'']]"]
    by (simp add: EXERCISE_UTILS_FILES_def)
qed

lemma demo_run:
  "demo_interp (ensure_str (Text ''raise RuntimeError'')) package
      (exec_world ''/tmp/pkg'' session_world)
     = (Inl (Raised ''RuntimeError'' ''boom''), after_broken_script)"
  by (simp add: demo_interp_def ensure_str_def exec_world_def session_world_def
      after_broken_script_def purge_helper_modules_def modules_to_remove_def
      is_helper_module_def del_module_def)

lemma demo_on_path: "''/tmp/pkg'' \<in> set (sys_path after_broken_script)"
  by (simp add: after_broken_script_def)

lemma demo_load:
  "load_file_as_namespace demo_interp (Some ''/tmp/pkg'') demo_repo [''hello'', ''broken.py'']
      session_world
   = (Inl (Raised ''RuntimeError'' ''boom''),
      demo_repo\<lparr>priv_repo :=
        Some (demo_git_repo\<lparr>sparse := [[''exercise_utils'', ''test.py'']]\<rparr>)\<rparr>,
      session_world\<lparr>sys_modules := [(''os'', ''os.py'')], dont_write_bytecode := True\<rparr>)"
  using load_run [where file_path = "[''hello'', ''broken.py'']" and s = demo_repo
      and w = session_world and interp = demo_interp and tmpdir = "''/tmp/pkg''"
      and py_file = "Text ''raise RuntimeError''"
      and package = "map (\<lambda>n. (n @ ''.py'', ''# '' @ n)) EXERCISE_UTILS_FILES"
      and res = "Inl (Raised ''RuntimeError'' ''boom'')" and w' = after_broken_script]
  by (simp add: session_tmp_dirs demo_fetch_script demo_fetch_helpers demo_run demo_on_path)
     (simp add: after_broken_script_def session_world_def purge_helper_modules_def
        modules_to_remove_def is_helper_module_def del_module_def cleanup_def)

text \<open>
  Why the statements below ask that the fetched code leaves the throwaway directory on
  the search path: when it does not, \<^verbatim>\<open>sys.path.remove\<close> raises in the
  \<^verbatim>\<open>finally\<close> block, that \<^verbatim>\<open>ValueError\<close> is what load fails with,
  and the purge after it is skipped.
\<close>

lemma load_path_entry_removed:
  "load_file_as_namespace unruly_interp (Some ''/tmp/pkg'') demo_repo [''hello'', ''broken.py'']
      session_world
   = (Inl ValueError,
      demo_repo\<lparr>priv_repo :=
        Some (demo_git_repo\<lparr>sparse := [[''exercise_utils'', ''test.py'']]\<rparr>)\<rparr>,
      \<lparr>sys_modules = [(''os'', ''os.py''), (''exercise_utils'', ''__init__.py'')],
       sys_path = [], dont_write_bytecode = True, tmp_dirs = [''/tmp/clone'']\<rparr>)"
  using load_script_read [where file_path = "[''hello'', ''broken.py'']" and s = demo_repo
      and w = session_world and interp = unruly_interp and tmp = "Some ''/tmp/pkg''"
      and py_file = "Text ''raise RuntimeError''"]
  by (simp add: session_tmp_dirs demo_fetch_script demo_fetch_helpers exec_script_def
      unruly_interp_def)
     (simp add: session_world_def purge_helper_modules_def modules_to_remove_def
        is_helper_module_def del_module_def cleanup_def)

text \<open>
  Claim C1, as stated, fails: the script is read before the first purge, so a load whose
  script cannot be read raises before any purge has run and finishes with the helper
  module that was registered before still in the registry.
\<close>

theorem load_read_failure_counterexample:
  "load_file_as_namespace demo_interp (Some ''/tmp/pkg'') demo_repo [''hello'', ''verify.py'']
      session_world
     = (Inl (FileNotFoundError [''hello'', ''verify.py'']),
        demo_repo\<lparr>priv_repo := Some (demo_git_repo\<lparr>sparse := [[''hello'', ''verify.py'']]\<rparr>)\<rparr>,
        session_world\<lparr>dont_write_bytecode := True\<rparr>) \<and>
   \<not> no_helper_modules (session_world\<lparr>dont_write_bytecode := True\<rparr>)"
proof -
  have "open_read (demo_git_repo\<lparr>sparse := [[''hello'', ''verify.py'']]\<rparr>)
          [''hello'', ''verify.py''] False = Inl (FileNotFoundError [''hello'', ''verify.py''])"
    by (simp add: open_read_def demo_ordinary path_exists_def materialized_def in_cone_def
        demo_git_repo_def demo_remote_def EXERCISE_UTILS_FILES_def)
  then have "fetch_file_contents [''hello'', ''verify.py''] False demo_repo
               (tmp_dirs session_world)
          = (Inl (FileNotFoundError [''hello'', ''verify.py'']),
             demo_repo\<lparr>priv_repo :=
               Some (demo_git_repo\<lparr>sparse := [[''hello'', ''verify.py'']]\<rparr>)\<rparr>)"
    by (simp add: session_tmp_dirs fetch_file_contents_live [OF demo_handle demo_dir]
        demo_ordinary)
  then have "load_file_as_namespace demo_interp (Some ''/tmp/pkg'') demo_repo
      [''hello'', ''verify.py''] session_world
     = (Inl (FileNotFoundError [''hello'', ''verify.py'']),
        demo_repo\<lparr>priv_repo := Some (demo_git_repo\<lparr>sparse := [[''hello'', ''verify.py'']]\<rparr>)\<rparr>,
        session_world\<lparr>dont_write_bytecode := True\<rparr>)"
    by (rule load_read_failed)
  moreover have "\<not> no_helper_modules (session_world\<lparr>dont_write_bytecode := True\<rparr>)"
    by (simp add: session_world_def no_helper_modules_def is_helper_module_def)
  ultimately show ?thesis by simp
qed

text \<open>
  Claim C1, amended. For every load whose read of the script succeeds: the process state
  in which the script is executed holds no helper module (no key
  \<^verbatim>\<open>exercise_utils\<close> and no key starting with \<^verbatim>\<open>exercise_utils.\<close>), and
  fetched code that behaved differently in a state with helper modules would give the
  same load, since it is never run in such a state; and when load finishes, whether the
  throwaway directory could not be made, a helper could not be read, or the script
  returned or raised, the registry holds no helper module, provided the script, if it
  is run, leaves the throwaway directory on the search path. For every load whose read
  of the script fails, load raises the error of the read before any purge, and leaves
  the registry as it found it.
\<close>

theorem load_registry_clean:
  "(fetch_file_contents file_path False s (tmp_dirs w) = (Inr py_file, s1) \<longrightarrow>
      no_helper_modules (exec_world tmpdir w) \<and>
      (\<forall>interp'. agree_without_helpers interp interp' \<longrightarrow>
         load_file_as_namespace interp' tmp s file_path w =
         load_file_as_namespace interp tmp s file_path w) \<and>
      ((\<forall>dir package s2.
          tmp = Some dir \<and>
          fetch_helpers EXERCISE_UTILS_FILES s1 (dir # tmp_dirs w) = (Inr package, s2) \<longrightarrow>
          dir \<in> set (sys_path
            (snd (interp (ensure_str py_file) package (exec_world dir w))))) \<longrightarrow>
       no_helper_modules (snd (snd (load_file_as_namespace interp tmp s file_path w))))) \<and>
   (fetch_file_contents file_path False s (tmp_dirs w) = (Inl e, s1) \<longrightarrow>
      load_file_as_namespace interp tmp s file_path w
        = (Inl e, s1, w\<lparr>dont_write_bytecode := True\<rparr>) \<and>
      sys_modules (snd (snd (load_file_as_namespace interp tmp s file_path w)))
        = sys_modules w)"
proof (intro conjI impI allI)
  show "no_helper_modules (exec_world tmpdir w)"
    by (rule exec_world_clean)
next
  fix interp' :: "'a interp"
  assume read: "fetch_file_contents file_path False s (tmp_dirs w) = (Inr py_file, s1)"
    and agree: "agree_without_helpers interp interp'"
  have "exec_script interp' src package dir
          ((purge_helper_modules (w\<lparr>dont_write_bytecode := True\<rparr>))
             \<lparr>tmp_dirs := dir # tmp_dirs w\<rparr>)
        = exec_script interp src package dir
          ((purge_helper_modules (w\<lparr>dont_write_bytecode := True\<rparr>))
             \<lparr>tmp_dirs := dir # tmp_dirs w\<rparr>)"
    for src package dir
    using agree by (rule exec_script_agree) (simp add: purge_no_helper_modules)
  then show "load_file_as_namespace interp' tmp s file_path w =
             load_file_as_namespace interp tmp s file_path w"
    by (simp add: load_script_read [OF read] Let_def
        split: option.splits prod.splits sum.splits)
next
  assume read: "fetch_file_contents file_path False s (tmp_dirs w) = (Inr py_file, s1)"
    and stays: "\<forall>dir package s2.
          tmp = Some dir \<and>
          fetch_helpers EXERCISE_UTILS_FILES s1 (dir # tmp_dirs w) = (Inr package, s2) \<longrightarrow>
          dir \<in> set (sys_path
            (snd (interp (ensure_str py_file) package (exec_world dir w))))"
  let ?w2 = "purge_helper_modules (w\<lparr>dont_write_bytecode := True\<rparr>)"
  have w2: "no_helper_modules ?w2"
    by (rule purge_no_helper_modules)
  show "no_helper_modules (snd (snd (load_file_as_namespace interp tmp s file_path w)))"
  proof (cases tmp)
    case None
    with w2 show ?thesis
      by (simp add: load_script_read [OF read])
  next
    case (Some dir)
    let ?w3 = "?w2\<lparr>tmp_dirs := dir # tmp_dirs w\<rparr>"
    show ?thesis
    proof (cases "fetch_helpers EXERCISE_UTILS_FILES s1 (dir # tmp_dirs w)")
      case (Pair fetched s2)
      show ?thesis
      proof (cases fetched)
        case (Inl e)
        with Some Pair w2 show ?thesis
          by (simp add: load_script_read [OF read])
      next
        case (Inr package)
        with Some Pair stays
        have "dir \<in> set (sys_path
            (snd (interp (ensure_str py_file) package (exec_world dir w))))"
          by blast
        then have "dir \<in> set (sys_path (snd (interp (ensure_str py_file) package
            (?w3\<lparr>sys_path := dir # sys_path ?w3\<rparr>))))"
          by (simp add: exec_world_def purge_other_fields)
        then have "no_helper_modules
            (snd (exec_script interp (ensure_str py_file) package dir ?w3))"
          by (rule exec_script_clean)
        with Some Pair Inr show ?thesis
          by (auto simp: load_script_read [OF read] split: prod.splits sum.splits)
      qed
    qed
  qed
next
  assume "fetch_file_contents file_path False s (tmp_dirs w) = (Inl e, s1)"
  then show "load_file_as_namespace interp tmp s file_path w
        = (Inl e, s1, w\<lparr>dont_write_bytecode := True\<rparr>)"
    by (rule load_read_failed)
next
  assume "fetch_file_contents file_path False s (tmp_dirs w) = (Inl e, s1)"
  then have "load_file_as_namespace interp tmp s file_path w
        = (Inl e, s1, w\<lparr>dont_write_bytecode := True\<rparr>)"
    by (rule load_read_failed)
  then show "sys_modules (snd (snd (load_file_as_namespace interp tmp s file_path w)))
        = sys_modules w"
    by simp
qed

theorem load_registry_clean_witness:
  "\<not> no_helper_modules session_world \<and>
   no_helper_modules (snd (snd (load_file_as_namespace demo_interp (Some ''/tmp/pkg'') demo_repo
      [''hello'', ''broken.py''] session_world)))"
proof -
  have "no_helper_modules (snd (snd (load_file_as_namespace demo_interp (Some ''/tmp/pkg'')
      demo_repo [''hello'', ''broken.py''] session_world)))"
    using load_registry_clean [where file_path = "[''hello'', ''broken.py'']" and s = demo_repo
        and w = session_world and interp = demo_interp and tmp = "Some ''/tmp/pkg''"
        and py_file = "Text ''raise RuntimeError''"
        and ?s1.0 = "demo_repo\<lparr>priv_repo :=
          Some (demo_git_repo\<lparr>sparse := [[''hello'', ''broken.py'']]\<rparr>)\<rparr>",
        THEN conjunct1, rule_format, THEN conjunct2, THEN conjunct2, rule_format]
    by (simp add: session_tmp_dirs demo_fetch_script demo_interp_def Let_def exec_world_def
        purge_other_fields)
  moreover have "\<not> no_helper_modules session_world"
    by (simp add: session_world_def no_helper_modules_def is_helper_module_def)
  ultimately show ?thesis by simp
qed

text \<open>
  Claim C4, as stated, fails: the exception of the script leaves
  \<open>load_file_as_namespace\<close> as the script raised it, and nothing in it names the path
  of the script.
\<close>

theorem script_exception_unannotated_counterexample:
  "fst (load_file_as_namespace demo_interp (Some ''/tmp/pkg'') demo_repo
          [''hello'', ''broken.py''] session_world) = Inl (Raised ''RuntimeError'' ''boom'') \<and>
   \<not> mentions_path (Raised ''RuntimeError'' ''boom'') [''hello'', ''broken.py'']"
  by (simp add: demo_load mentions_path_def sublist_code(3))

text \<open>
  Claim C4, amended. For every load whose script and helpers are read and whose script
  raises an exception \<open>e\<close> while it is executed, leaving the throwaway directory on the
  search path, load fails with that very exception \<open>e\<close>: the exception of the script
  is passed on unchanged, not wrapped and with no path attached.
\<close>

theorem script_exception_propagates:
  assumes read: "fetch_file_contents file_path False s (tmp_dirs w) = (Inr py_file, s1)"
      and helpers: "fetch_helpers EXERCISE_UTILS_FILES s1 (tmpdir # tmp_dirs w) = (Inr package, s2)"
      and run: "interp (ensure_str py_file) package (exec_world tmpdir w) = (Inl e, w')"
      and on_path: "tmpdir \<in> set (sys_path w')"
  shows "fst (load_file_as_namespace interp (Some tmpdir) s file_path w) = Inl e"
  using load_run [where interp = interp and res = "Inl e", OF read helpers run] on_path
  by (simp add: Let_def)

theorem script_exception_propagates_witness:
  "fst (load_file_as_namespace demo_interp (Some ''/tmp/pkg'') demo_repo
          [''hello'', ''broken.py''] session_world) = Inl (Raised ''RuntimeError'' ''boom'')"
  using script_exception_propagates [where file_path = "[''hello'', ''broken.py'']"
      and s = demo_repo and w = session_world and interp = demo_interp
      and tmpdir = "''/tmp/pkg''" and py_file = "Text ''raise RuntimeError''"
      and package = "map (\<lambda>n. (n @ ''.py'', ''# '' @ n)) EXERCISE_UTILS_FILES"
      and e = "Raised ''RuntimeError'' ''boom''" and w' = after_broken_script
      and ?s1.0 = "demo_repo\<lparr>priv_repo :=
        Some (demo_git_repo\<lparr>sparse := [[''hello'', ''broken.py'']]\<rparr>)\<rparr>"
      and ?s2.0 = "demo_repo\<lparr>priv_repo :=
        Some (demo_git_repo\<lparr>sparse := [[''exercise_utils'', ''test.py'']]\<rparr>)\<rparr>"]
  by (simp add: session_tmp_dirs demo_fetch_script demo_fetch_helpers demo_run demo_on_path)

lemma load_flag_before_exec:
  "fetch_file_contents file_path False s (tmp_dirs w) = (Inl e, s1) \<Longrightarrow>
   dont_write_bytecode (snd (snd (load_file_as_namespace interp tmp s file_path w)))"
  "fetch_file_contents file_path False s (tmp_dirs w) = (Inr py_file, s1) \<Longrightarrow>
   dont_write_bytecode (snd (snd (load_file_as_namespace interp None s file_path w)))"
  "fetch_file_contents file_path False s (tmp_dirs w) = (Inr py_file, s1) \<Longrightarrow>
   fetch_helpers EXERCISE_UTILS_FILES s1 (tmpdir # tmp_dirs w) = (Inl e, s2) \<Longrightarrow>
   dont_write_bytecode (snd (snd (load_file_as_namespace interp (Some tmpdir) s file_path w)))"
  by (simp_all add: load_read_failed load_script_read purge_other_fields)

text \<open>
  Claim C9, as stated, fails: when the script itself clears the flag before it raises,
  load exits with \<^verbatim>\<open>sys.dont_write_bytecode\<close> cleared, although executing the
  script raised.
\<close>

theorem flag_cleared_by_script_counterexample:
  "fst (load_file_as_namespace flag_clearing_interp (Some ''/tmp/pkg'') demo_repo
          [''hello'', ''broken.py''] session_world) = Inl (Raised ''RuntimeError'' ''boom'') \<and>
   \<not> dont_write_bytecode (snd (snd (load_file_as_namespace flag_clearing_interp
       (Some ''/tmp/pkg'') demo_repo [''hello'', ''broken.py''] session_world)))"
  using load_run [where file_path = "[''hello'', ''broken.py'']" and s = demo_repo
      and w = session_world and interp = flag_clearing_interp and tmpdir = "''/tmp/pkg''"
      and py_file = "Text ''raise RuntimeError''"
      and package = "map (\<lambda>n. (n @ ''.py'', ''# '' @ n)) EXERCISE_UTILS_FILES"
      and res = "Inl (Raised ''RuntimeError'' ''boom'')"
      and w' = "(exec_world ''/tmp/pkg'' session_world)\<lparr>dont_write_bytecode := False\<rparr>"]
  by (simp add: session_tmp_dirs demo_fetch_script demo_fetch_helpers flag_clearing_interp_def
      exec_world_def purge_other_fields)

text \<open>
  Claim C9, amended. \<open>load_file_as_namespace\<close> sets
  \<^verbatim>\<open>sys.dont_write_bytecode\<close> before anything else and writes it a second time,
  clearing it, only as its last step before it returns a namespace. So load exits with
  the flag set whenever it fails before the script is run (the script or a helper
  cannot be read, the throwaway directory cannot be made); the script is run with the
  flag set; whenever load raises after the script was run, and in particular whenever
  executing the script raised, load exits with the flag as the script left it, that is
  still set unless the script itself cleared it; and load exits with the flag cleared
  whenever it returns. Any later \<open>execute_function\<close> that returns clears the flag.
\<close>

theorem bytecode_flag_after_load:
  "(fetch_file_contents file_path False s (tmp_dirs w) = (Inl e, s1) \<longrightarrow>
      dont_write_bytecode (snd (snd (load_file_as_namespace interp tmp s file_path w)))) \<and>
   (fetch_file_contents file_path False s (tmp_dirs w) = (Inr py_file, s1) \<longrightarrow>
      dont_write_bytecode (snd (snd (load_file_as_namespace interp None s file_path w))) \<and>
      (fetch_helpers EXERCISE_UTILS_FILES s1 (tmpdir # tmp_dirs w) = (Inl e, s2) \<longrightarrow>
         dont_write_bytecode
           (snd (snd (load_file_as_namespace interp (Some tmpdir) s file_path w)))) \<and>
      (fetch_helpers EXERCISE_UTILS_FILES s1 (tmpdir # tmp_dirs w) = (Inr package, s2) \<and>
       interp (ensure_str py_file) package (exec_world tmpdir w) = (res, w') \<longrightarrow>
         dont_write_bytecode (exec_world tmpdir w) \<and>
         ((\<exists>e'. res = Inl e') \<longrightarrow>
            (\<exists>e'. fst (load_file_as_namespace interp (Some tmpdir) s file_path w) = Inl e')) \<and>
         ((\<exists>e'. fst (load_file_as_namespace interp (Some tmpdir) s file_path w) = Inl e') \<longrightarrow>
            dont_write_bytecode
              (snd (snd (load_file_as_namespace interp (Some tmpdir) s file_path w)))
              = dont_write_bytecode w'))) \<and>
   ((\<exists>namespace. fst (load_file_as_namespace interp tmp s file_path w) = Inr namespace) \<longrightarrow>
      \<not> dont_write_bytecode (snd (snd (load_file_as_namespace interp tmp s file_path w)))) \<and>
   (\<forall>namespace function_name params w0 r.
      fst (execute_function namespace function_name params w0) = Inr r \<longrightarrow>
      \<not> dont_write_bytecode (snd (execute_function namespace function_name params w0)))"
proof (intro conjI allI impI)
  assume "fetch_file_contents file_path False s (tmp_dirs w) = (Inl e, s1)"
  then show "dont_write_bytecode (snd (snd (load_file_as_namespace interp tmp s file_path w)))"
    by (rule load_flag_before_exec)
next
  assume "fetch_file_contents file_path False s (tmp_dirs w) = (Inr py_file, s1)"
  then show "dont_write_bytecode (snd (snd (load_file_as_namespace interp None s file_path w)))"
    by (rule load_flag_before_exec)
next
  assume "fetch_file_contents file_path False s (tmp_dirs w) = (Inr py_file, s1)"
    and "fetch_helpers EXERCISE_UTILS_FILES s1 (tmpdir # tmp_dirs w) = (Inl e, s2)"
  then show "dont_write_bytecode
      (snd (snd (load_file_as_namespace interp (Some tmpdir) s file_path w)))"
    by (rule load_flag_before_exec)
next
  show "dont_write_bytecode (exec_world tmpdir w)"
    by (simp add: exec_world_def purge_other_fields)
next
  assume read: "fetch_file_contents file_path False s (tmp_dirs w) = (Inr py_file, s1)"
    and run: "fetch_helpers EXERCISE_UTILS_FILES s1 (tmpdir # tmp_dirs w) = (Inr package, s2) \<and>
       interp (ensure_str py_file) package (exec_world tmpdir w) = (res, w')"
  note load = load_run [where interp = interp and res = res, OF read conjunct1 [OF run]
      conjunct2 [OF run]]
  show "\<exists>e'. fst (load_file_as_namespace interp (Some tmpdir) s file_path w) = Inl e'"
    if "\<exists>e'. res = Inl e'"
    using that load by (auto simp: Let_def)
  show "dont_write_bytecode
          (snd (snd (load_file_as_namespace interp (Some tmpdir) s file_path w)))
          = dont_write_bytecode w'"
    if "\<exists>e'. fst (load_file_as_namespace interp (Some tmpdir) s file_path w) = Inl e'"
    using that load
    by (cases res) (auto simp: Let_def purge_other_fields split: if_splits)
next
  assume "\<exists>namespace. fst (load_file_as_namespace interp tmp s file_path w) = Inr namespace"
  then show "\<not> dont_write_bytecode (snd (snd (load_file_as_namespace interp tmp s file_path w)))"
    by (auto simp: load_file_as_namespace_def Let_def
        split: prod.splits sum.splits option.splits)
next
  fix namespace :: "'b namespace" and function_name params w0 r
  assume "fst (execute_function namespace function_name params w0) = Inr r"
  then show "\<not> dont_write_bytecode (snd (execute_function namespace function_name params w0))"
    by (auto simp: execute_function_def Let_def split: option.splits sum.splits prod.splits)
qed

theorem bytecode_flag_after_load_witness:
  "\<not> dont_write_bytecode session_world \<and>
   dont_write_bytecode (snd (snd (load_file_as_namespace demo_interp (Some ''/tmp/pkg'')
      demo_repo [''hello'', ''broken.py''] session_world)))"
proof -
  have failed: "\<exists>e'. fst (load_file_as_namespace demo_interp (Some ''/tmp/pkg'')
      demo_repo [''hello'', ''broken.py''] session_world) = Inl e'"
    by (simp add: demo_load)
  have "dont_write_bytecode (snd (snd (load_file_as_namespace demo_interp (Some ''/tmp/pkg'')
      demo_repo [''hello'', ''broken.py''] session_world)))
        = dont_write_bytecode after_broken_script"
    using bytecode_flag_after_load [where file_path = "[''hello'', ''broken.py'']"
        and s = demo_repo and w = session_world and interp = demo_interp
        and tmpdir = "''/tmp/pkg''" and py_file = "Text ''raise RuntimeError''"
        and package = "map (\<lambda>n. (n @ ''.py'', ''# '' @ n)) EXERCISE_UTILS_FILES"
        and res = "Inl (Raised ''RuntimeError'' ''boom'')" and w' = after_broken_script
        and ?s1.0 = "demo_repo\<lparr>priv_repo :=
          Some (demo_git_repo\<lparr>sparse := [[''hello'', ''broken.py'']]\<rparr>)\<rparr>"
        and ?s2.0 = "demo_repo\<lparr>priv_repo :=
          Some (demo_git_repo\<lparr>sparse := [[''exercise_utils'', ''test.py'']]\<rparr>)\<rparr>",
        THEN conjunct2, THEN conjunct1, rule_format, THEN conjunct2, THEN conjunct2,
        rule_format, THEN conjunct2, THEN conjunct2, rule_format]
      failed
    by (simp add: session_tmp_dirs demo_fetch_script demo_fetch_helpers demo_run)
  moreover have "dont_write_bytecode after_broken_script"
    by (simp add: after_broken_script_def)
  moreover have "\<not> dont_write_bytecode session_world"
    by (simp add: session_world_def)
  ultimately show ?thesis by simp
qed

section \<open>Properties of \<open>execute_function\<close>\<close>

lemma execute_function_absent:
  "namespace function_name = None \<Longrightarrow>
   execute_function namespace function_name params w =
     (Inr None, w\<lparr>dont_write_bytecode := False\<rparr>)"
  by (simp add: execute_function_def)

text \<open>
  Claim C2. Whatever the namespace and the parameters, a call of
  \<open>execute_function\<close> with a name the namespace does not bind returns \<^verbatim>\<open>None\<close>
  and raises nothing; in any sequence of such calls, one after the other in the same
  process, every call does.
\<close>

theorem absent_function_no_result:
  assumes "\<forall>call \<in> set calls. namespace (fst call) = None"
  shows "fst (execute_functions namespace calls w) = replicate (length calls) (Inr None)"
  using assms
proof (induction calls arbitrary: w)
  case Nil
  show ?case by simp
next
  case (Cons call calls)
  obtain function_name params where call: "call = (function_name, params)"
    by (cases call)
  from Cons.prems call have absent: "namespace function_name = None"
    by simp
  from Cons.prems have rest: "\<forall>c \<in> set calls. namespace (fst c) = None"
    by simp
  have "fst (execute_functions namespace calls (w\<lparr>dont_write_bytecode := False\<rparr>))
          = replicate (length calls) (Inr None)"
    using rest by (rule Cons.IH)
  with absent show ?case
    by (auto simp: call execute_function_absent split: prod.splits)
qed

theorem absent_function_no_result_witness:
  "fst (execute_functions demo_namespace
          [(''setup'', []), (''setup'', [(''verbose'', ''1'')]), (''download'', [])] demo_world)
     = [Inr None, Inr None, Inr None]"
  using absent_function_no_result [of
      "[(''setup'', []), (''setup'', [(''verbose'', ''1'')]), (''download'', [])]"
      demo_namespace demo_world]
  by (simp add: demo_namespace_def)

lemma keys_filter:
  "set (map fst (filter (\<lambda>(k, v). k \<in> A) params)) = set (map fst params) \<inter> A"
  by (induction params) auto

lemma call_function_binds:
  assumes kinds: "\<forall>p \<in> set (parameters f). kind p \<noteq> PositionalOnly \<and> kind p \<noteq> VarPositional"
      and keys: "set (map fst kwargs) \<subseteq> set (map pname (parameters f))"
      and required: "\<forall>p \<in> set (parameters f). is_required p \<longrightarrow> pname p \<in> set (map fst kwargs)"
  shows "call_function f kwargs w = body f kwargs w"
proof -
  have accepted: "accepts_keyword (parameters f) k" if "k \<in> set (map fst kwargs)" for k
  proof -
    from that keys obtain p where p: "p \<in> set (parameters f)" "pname p = k"
      by auto
    with kinds show ?thesis
      by (cases "kind p") (auto simp: accepts_keyword_def takes_keyword_def)
  qed
  have bound: "takes_keyword p \<and> pname p \<in> set (map fst kwargs)"
    if "p \<in> set (parameters f)" "is_required p" for p
    using that kinds required by (cases "kind p") (auto simp: takes_keyword_def is_required_def)
  from accepted bound show ?thesis
    unfolding call_function_def by auto
qed

text \<open>
  Claim C3, as stated, fails: for a function whose required parameter is positional-only,
  the parameter's name passes the filter, yet Python refuses it as a keyword and the
  call raises \<^verbatim>\<open>TypeError\<close>, although every required parameter is among the
  remaining keys.
\<close>

theorem positional_only_counterexample:
  "demo_namespace ''check'' = Some (Function positional_only_function) \<and>
   map pname (filter is_required (parameters positional_only_function)) = [''repo_path''] \<and>
   map fst (filter (\<lambda>(k, v). k \<in> set (map pname (parameters positional_only_function)))
              [(''repo_path'', ''/tmp/x''), (''unused'', ''1'')]) = [''repo_path''] \<and>
   execute_function demo_namespace ''check''
       [(''repo_path'', ''/tmp/x''), (''unused'', ''1'')] demo_world
     = (Inl TypeError, demo_world)"
  by (simp add: demo_namespace_def positional_only_function_def is_required_def
      execute_function_def signature_def call_object_def call_function_def
      accepts_keyword_def takes_keyword_def)

text \<open>
  Claim C3, amended. When the name is bound to a function that declares no
  positional-only and no \<^verbatim>\<open>*args\<close> parameter, \<open>execute_function\<close> runs the
  function's body with exactly the entries of the parameters whose keys are declared
  parameter names (the other entries are dropped), provided every parameter without a
  default is among the keys; what the body returns or raises is passed back unchanged.
\<close>

theorem execute_function_filters_params:
  assumes bound: "namespace function_name = Some (Function f)"
      and kinds: "\<forall>p \<in> set (parameters f). kind p \<noteq> PositionalOnly \<and> kind p \<noteq> VarPositional"
      and required: "\<forall>p \<in> set (parameters f). is_required p \<longrightarrow> pname p \<in> set (map fst params)"
  shows "execute_function namespace function_name params w =
           (case body f (filter (\<lambda>(k, v). k \<in> set (map pname (parameters f))) params) w of
              (Inl e, w') \<Rightarrow> (Inl e, w')
            | (Inr result, w') \<Rightarrow> (Inr result, w'\<lparr>dont_write_bytecode := False\<rparr>))"
proof -
  let ?valid = "filter (\<lambda>(k, v). k \<in> set (map pname (parameters f))) params"
  have keys: "set (map fst ?valid) = set (map fst params) \<inter> set (map pname (parameters f))"
    by (rule keys_filter)
  have "call_function f ?valid w = body f ?valid w"
  proof (rule call_function_binds [OF kinds])
    show "set (map fst ?valid) \<subseteq> set (map pname (parameters f))"
      using keys by simp
    show "\<forall>p \<in> set (parameters f). is_required p \<longrightarrow> pname p \<in> set (map fst ?valid)"
      using required keys by auto
  qed
  then show ?thesis
    using bound by (simp add: execute_function_def signature_def call_object_def)
qed

theorem execute_function_filters_params_witness:
  "execute_function demo_namespace ''verify''
       [(''repo_path'', ''/tmp/x''), (''unused'', ''1'')] demo_world
     = (Inr (Some ''/tmp/x''), demo_world\<lparr>dont_write_bytecode := False\<rparr>)"
  using execute_function_filters_params [of demo_namespace "''verify''" verify_function
      "[(''repo_path'', ''/tmp/x''), (''unused'', ''1'')]" demo_world]
  by (simp add: demo_namespace_def verify_function_def is_required_def)

text \<open>
  Claim C10. When the name is bound to a value that is not callable,
  \<open>execute_function\<close> raises the \<^verbatim>\<open>TypeError\<close> of the signature inspection: it
  returns neither \<^verbatim>\<open>None\<close> nor the bound value, and leaves the process state as
  it was.
\<close>

theorem non_callable_raises:
  "namespace function_name = Some (Plain v) \<Longrightarrow>
   execute_function namespace function_name params w = (Inl TypeError, w)"
  by (simp add: execute_function_def signature_def)

theorem non_callable_raises_witness:
  "demo_namespace ''VERSION'' = Some (Plain ''1.0'') \<and>
   execute_function demo_namespace ''VERSION'' [] demo_world = (Inl TypeError, demo_world)"
  using non_callable_raises [of demo_namespace "''VERSION''" "''1.0''" "[]" demo_world]
  by (simp add: demo_namespace_def)

end
